theory Spec2Isabelle
  imports Main
begin

section \<open>The migrate command of cmt: data model\<close>

text \<open>
  The development embeds \<^verbatim>\<open>src/migrate/migrate.go\<close>: the body of
  \<^verbatim>\<open>Command.Action\<close> from the log line at source line 39 on, and the helpers
  \<^verbatim>\<open>isRunning\<close>, \<^verbatim>\<open>unpackTar\<close>, \<^verbatim>\<open>prepareTar\<close>, \<^verbatim>\<open>checkpoint\<close>,
  \<^verbatim>\<open>prepareDir\<close> and \<^verbatim>\<open>getContainerId\<close>.

  The packages \<^verbatim>\<open>cmd\<close> and \<^verbatim>\<open>validate\<close> are not part of the source file. What
  they answer is a parameter of the model: an environment that decides, from the
  history of everything done so far, the error result of each remote command, copy and
  process start, and the reading of the clock. A Go \<^verbatim>\<open>error\<close> is an
  \<open>err option\<close>: \<open>None\<close> is \<^verbatim>\<open>nil\<close>, \<open>Some e\<close> a non-nil error with message \<open>e\<close>.
\<close>

type_synonym err = string

datatype host = Src | Dst

text \<open>
  One entry of the history per effect of the program on the outside world, in program
  order: a blocking remote command (\<^verbatim>\<open>Run\<close>, with the whole argument vector and the
  error it returned), a copy between hosts (\<^verbatim>\<open>cmd.Scp\<close>), a process start
  (\<^verbatim>\<open>Start\<close>), a reading of the clock (\<^verbatim>\<open>time.Now()\<close>) and a log line.
\<close>

datatype event =
    Ran host "string list" "err option"
  | Copied string string "err option"
  | Started host "string list" "err option"
  | ClockRead int
  | Logged string

record env =
  run_result :: "event list \<Rightarrow> host \<Rightarrow> string list \<Rightarrow> err option"
  scp_result :: "event list \<Rightarrow> string \<Rightarrow> string \<Rightarrow> err option"
  start_result :: "event list \<Rightarrow> host \<Rightarrow> string list \<Rightarrow> err option"
  time_now :: "event list \<Rightarrow> int"
  URL :: "host \<Rightarrow> string \<Rightarrow> string"

text \<open>
  The mutable local variables of \<^verbatim>\<open>Action\<close> that outlive a step
  (\<^verbatim>\<open>migrateStart\<close>, \<^verbatim>\<open>restoreCmd\<close>), with the history.
\<close>

record world =
  trace :: "event list"
  migrateStart :: int
  restoreCmd :: "(host \<times> string list) option"

text \<open>
  \<^verbatim>\<open>log.Fatal(msg, err)\<close> ends the process: a step returns \<open>Inl (w, msg, e)\<close>, the
  world at the exit with the message and the error, or \<open>Inr w\<close> to go on.
\<close>

type_synonym 'a result = "(world \<times> string \<times> err) + 'a"

definition world0 :: world where
  "world0 = \<lparr>trace = [], migrateStart = 0, restoreCmd = None\<rparr>"

section \<open>The external calls\<close>

definition Run :: "env \<Rightarrow> host \<Rightarrow> string list \<Rightarrow> world \<Rightarrow> err option \<times> world" where
  "Run e h argv w =
     (let r = run_result e (trace w) h argv
      in (r, w\<lparr>trace := trace w @ [Ran h argv r]\<rparr>))"

definition Scp :: "env \<Rightarrow> string \<Rightarrow> string \<Rightarrow> world \<Rightarrow> err option \<times> world" where
  "Scp e a b w =
     (let r = scp_result e (trace w) a b
      in (r, w\<lparr>trace := trace w @ [Copied a b r]\<rparr>))"

definition Start :: "env \<Rightarrow> host \<Rightarrow> string list \<Rightarrow> world \<Rightarrow> err option \<times> world" where
  "Start e h argv w =
     (let r = start_result e (trace w) h argv
      in (r, w\<lparr>trace := trace w @ [Started h argv r],
                restoreCmd := (if r = None then Some (h, argv) else None)\<rparr>))"

definition logPrintln :: "string \<Rightarrow> world \<Rightarrow> world result" where
  "logPrintln msg w = Inr (w\<lparr>trace := trace w @ [Logged msg]\<rparr>)"

text \<open>\<^verbatim>\<open>if err != nil { log.Fatal(msg, err) }\<close> after a call.\<close>

definition orFatal :: "(world \<Rightarrow> err option \<times> world) \<Rightarrow> string \<Rightarrow> world \<Rightarrow> world result" where
  "orFatal call msg w =
     (case call w of
        (Some e, w') \<Rightarrow> Inl (w', msg, e)
      | (None, w') \<Rightarrow> Inr w')"

text \<open>\<^verbatim>\<open>migrateStart = time.Now()\<close>.\<close>

definition startClock :: "env \<Rightarrow> world \<Rightarrow> world result" where
  "startClock e w =
     (let t = time_now e (trace w)
      in Inr (w\<lparr>trace := trace w @ [ClockRead t], migrateStart := t\<rparr>))"

text \<open>Statements in sequence: the first fatal error ends the run.\<close>

fun steps :: "(world \<Rightarrow> world result) list \<Rightarrow> world \<Rightarrow> world result" where
  "steps [] w = Inr w"
| "steps (f # fs) w = (case f w of Inl x \<Rightarrow> Inl x | Inr w' \<Rightarrow> steps fs w')"

section \<open>The helpers of migrate.go\<close>

definition isRunning :: "string \<Rightarrow> (string list \<Rightarrow> err option) \<Rightarrow> bool" where
  "isRunning containerId dstRun =
     (case dstRun [''stat'', ''/var/run/opencontainer/containers/'' @ containerId] of
        Some e \<Rightarrow> True
      | None \<Rightarrow> False)"

definition unpackTar :: "env \<Rightarrow> host \<Rightarrow> string \<Rightarrow> string \<Rightarrow> world \<Rightarrow> world result" where
  "unpackTar e h tarFile workDir =
     steps [logPrintln ''Preparing image at destination host'',
            orFatal (Run e h [''sudo'', ''tar'', ''-C'', workDir, ''-xvzf'', tarFile])
              ''Error uncompressing image in destination:'']"

definition prepareTar :: "env \<Rightarrow> host \<Rightarrow> string \<Rightarrow> string \<Rightarrow> world \<Rightarrow> world result" where
  "prepareTar e h tarFile workDir =
     orFatal (Run e h [''sudo'', ''tar'', ''-czf'', tarFile, ''-C'', workDir @ ''/'', ''.''])
       ''Error compressing image in source:''"

definition checkpoint_args :: "string \<Rightarrow> string \<Rightarrow> bool \<Rightarrow> string list" where
  "checkpoint_args containerId imagesPath predump =
     (let args = [''runc'', ''--id'', containerId, ''checkpoint'', ''--image-path'', imagesPath]
      in if predump then args @ [''--pre-dump''] else args)"

definition checkpoint :: "env \<Rightarrow> host \<Rightarrow> string \<Rightarrow> string \<Rightarrow> bool \<Rightarrow> world \<Rightarrow> world result" where
  "checkpoint e h containerId imagesPath predump =
     steps [logPrintln (''Performing the checkpoint predump = ''
                          @ (if predump then ''true'' else ''false'')),
            orFatal (Run e h (''sudo'' # checkpoint_args containerId imagesPath predump))
              ''Error performing checkpoint:'']"

definition prepareDir :: "env \<Rightarrow> host \<Rightarrow> string \<Rightarrow> world \<Rightarrow> world result" where
  "prepareDir e h path =
     orFatal (Run e h [''mkdir'', ''-p'', path]) ''Error preparing pre-dump dir:''"

text \<open>
  \<^verbatim>\<open>filepath.Split\<close> cuts the path right after its last separator; the identifier
  is the part after it (the whole path when it has no separator).
\<close>

definition getContainerId :: "string \<Rightarrow> string" where
  "getContainerId path = rev (takeWhile (\<lambda>c. c \<noteq> CHR ''/'') (rev path))"

section \<open>Action: from the checkpoint to the restore launch\<close>

text \<open>
  Source lines 39 to 129. \<open>srcPath\<close> and \<open>dstPath\<close> are \<^verbatim>\<open>srcUrl.Path\<close> and
  \<^verbatim>\<open>dstUrl.Path\<close>, \<open>preDump\<close> is \<^verbatim>\<open>c.Bool("pre-dump")\<close>; \<open>Src\<close> and \<open>Dst\<close>
  stand for the two executors that \<^verbatim>\<open>validate.Validate\<close> returned.
\<close>

definition restore_args :: "string \<Rightarrow> string \<Rightarrow> string \<Rightarrow> string list" where
  "restore_args containerId dstPath dstImagesPath =
     [''sudo'', ''runc'', ''--id'', containerId, ''restore'', ''--image-path'', dstImagesPath,
      ''--config-file'', dstPath @ ''/config.json'',
      ''--runtime-file'', dstPath @ ''/runtime.json'']"

definition predump_branch :: "env \<Rightarrow> string \<Rightarrow> string \<Rightarrow> string \<Rightarrow> world \<Rightarrow> world result" where
  "predump_branch e srcPath dstPath containerId =
     (let predumpPath = srcPath @ ''/images/0'';
          imagesPath = srcPath @ ''/images/1''
      in steps
        [prepareDir e Src predumpPath,
         checkpoint e Src containerId predumpPath True,
         prepareTar e Src (srcPath @ ''/predump.tar.gz'') predumpPath,
         prepareDir e Dst (dstPath @ ''/images/0''),
         logPrintln ''Copying predump image to dst'',
         orFatal (Scp e (URL e Src (srcPath @ ''/predump.tar.gz''))
                        (URL e Dst (dstPath @ ''/images/0'')))
           ''Error copying predump image files to dst'',
         unpackTar e Dst (dstPath @ ''/images/0/predump.tar.gz'') (dstPath @ ''/images/0''),
         startClock e,
         logPrintln ''Performing the checkpoint'',
         orFatal (Run e Src [''sudo'', ''runc'', ''--id'', containerId, ''checkpoint'',
                             ''--image-path'', imagesPath, ''--prev-images-dir'', predumpPath])
           ''Error performing checkpoint:'',
         prepareTar e Src (srcPath @ ''/dump.tar.gz'') imagesPath,
         prepareDir e Dst (dstPath @ ''/images/1''),
         logPrintln ''Copying predump image to dst'',
         orFatal (Scp e (URL e Src (srcPath @ ''/dump.tar.gz''))
                        (URL e Dst (dstPath @ ''/images/1'')))
           ''Error copying predump image files to dst'',
         unpackTar e Dst (dstPath @ ''/images/1/dump.tar.gz'') (dstPath @ ''/images/1''),
         logPrintln ''Performing the restore'',
         orFatal (Start e Dst (restore_args containerId dstPath (dstPath @ ''/images/1'')))
           ''Error performing restore:''])"

definition single_branch :: "env \<Rightarrow> string \<Rightarrow> string \<Rightarrow> string \<Rightarrow> world \<Rightarrow> world result" where
  "single_branch e srcPath dstPath containerId =
     (let imagesPath = srcPath @ ''/images''
      in steps
        [prepareDir e Src imagesPath,
         startClock e,
         checkpoint e Src containerId imagesPath False,
         prepareTar e Src (srcPath @ ''/dump.tar.gz'') imagesPath,
         prepareDir e Dst (dstPath @ ''/images''),
         logPrintln ''Copying checkpoint image to dst'',
         orFatal (Scp e (URL e Src (srcPath @ ''/dump.tar.gz''))
                        (URL e Dst (dstPath @ ''/images'')))
           ''Error copying image files to dst'',
         unpackTar e Dst (dstPath @ ''/images/dump.tar.gz'') (dstPath @ ''/images''),
         logPrintln ''Performing the restore'',
         orFatal (Start e Dst (restore_args containerId dstPath (dstPath @ ''/images'')))
           ''Error performing restore:''])"

definition pipeline :: "env \<Rightarrow> string \<Rightarrow> string \<Rightarrow> bool \<Rightarrow> world result" where
  "pipeline e srcPath dstPath preDump =
     (case logPrintln ''Preparing everything to do a checkpoint'' world0 of
        Inl x \<Rightarrow> Inl x
      | Inr w \<Rightarrow>
          (let containerId = getContainerId srcPath
           in if preDump then predump_branch e srcPath dstPath containerId w
              else single_branch e srcPath dstPath containerId w))"

section \<open>Action: the completion monitor\<close>

text \<open>
  Source lines 131 to 172. Three threads of control share \<^verbatim>\<open>restoreSucceed\<close>,
  \<^verbatim>\<open>restoreError\<close> and the \<^verbatim>\<open>sync.WaitGroup\<close>, whose counter \<^verbatim>\<open>wg.Add(1)\<close>
  has set to 1:
  \<^item> the process-wait goroutine (lines 136 to 139);
  \<^item> the liveness goroutine (lines 141 to 161); the goroutine it starts at line 150 as
    its last statement is modelled as its continuation;
  \<^item> the main goroutine, blocked in \<^verbatim>\<open>wg.Wait()\<close> and then reporting
    (lines 163 to 172).
  An execution is an interleaving of their statements, given as a list of actions. An
  action carries what the environment answers at that moment: the error
  \<^verbatim>\<open>restoreCmd.Wait()\<close> returns, how the destination answers the command that
  \<^verbatim>\<open>isRunning\<close> runs, the reading of the clock. \<open>step\<close> is \<open>None\<close> when the
  action is not enabled in the state.

  The log line of the liveness goroutine (line 142) touches none of the shared variables
  and is left out; what main logs at the end is the \<open>outcome\<close> it reports: the success
  with the downtime \<^verbatim>\<open>time.Since(migrateStart)\<close>, or the failure with
  \<^verbatim>\<open>restoreError\<close>.

  \<^verbatim>\<open>wg.Done()\<close> decrements the counter and panics when it becomes negative
  (\<^verbatim>\<open>sync: negative WaitGroup counter\<close>); a panic in any goroutine ends the program, so
  nothing is enabled after it. \<^verbatim>\<open>wg.Wait()\<close> returns when the counter is zero.
  The goroutines are followed for as long as the process lives; what the caller of
  \<^verbatim>\<open>Action\<close> does after it returns is not part of the source file.

  Where each thread stands:
  \<^item> \<open>W_waiting\<close>: blocked in \<^verbatim>\<open>restoreCmd.Wait()\<close> (line 137); \<open>W_returned\<close>:
    \<^verbatim>\<open>restoreError\<close> assigned, before \<^verbatim>\<open>wg.Done()\<close> (line 138); \<open>W_finished\<close>.
  \<^item> \<open>P_check\<close>: before the call of \<^verbatim>\<open>isRunning\<close> at line 144; \<open>P_set\<close>: it returned
    true, before line 145; \<open>P_done\<close>: before \<^verbatim>\<open>wg.Done()\<close> at line 146;
    \<open>P_new_ticker\<close>: it returned false, before lines 149 and 150; \<open>P_recv\<close>: waiting
    for a tick at line 151; \<open>P_loop_check\<close>: before the call of \<^verbatim>\<open>isRunning\<close> at line
    152; \<open>P_loop_set\<close>: it returned true, before lines 153 and 154; \<open>P_stop\<close>: before
    \<^verbatim>\<open>ticker.Stop()\<close> (line 158); \<open>P_loop_done\<close>: before \<^verbatim>\<open>wg.Done()\<close> at line
    159; \<open>P_finished\<close>.
  \<^item> \<open>M_waiting\<close>: in \<^verbatim>\<open>wg.Wait()\<close> (line 163); \<open>M_woken\<close>: it returned, before
    lines 165 to 171; \<open>M_reported\<close>: the outcome logged at line 168 or 170.
\<close>

datatype outcome = Succeeded int | Failed "err option"

datatype wait_pc = W_waiting | W_returned | W_finished

datatype poll_pc =
    P_check | P_set | P_done | P_new_ticker
  | P_recv | P_loop_check | P_loop_set | P_stop | P_loop_done | P_finished

datatype main_pc = M_waiting | M_woken | M_reported outcome

datatype ticker_state = No_ticker | Ticking | Stopped

record monitor =
  wg :: int
  restoreSucceed :: bool
  restoreError :: "err option"
  waiter :: wait_pc
  poller :: poll_pc
  mainpc :: main_pc
  ticker :: ticker_state
  panicked :: bool

datatype action =
    WaitReturns "err option"
  | WaitStep
  | PollRun "string list \<Rightarrow> err option"
  | Tick
  | PollStep
  | MainWake
  | MainReport int

definition monitor0 :: monitor where
  "monitor0 = \<lparr>wg = 1, restoreSucceed = False, restoreError = None, waiter = W_waiting,
               poller = P_check, mainpc = M_waiting, ticker = No_ticker, panicked = False\<rparr>"

definition wg_Done :: "monitor \<Rightarrow> monitor" where
  "wg_Done s = (if wg s - 1 < 0 then s\<lparr>wg := wg s - 1, panicked := True\<rparr>
                else s\<lparr>wg := wg s - 1\<rparr>)"

fun poll_step :: "monitor \<Rightarrow> monitor option" where
  "poll_step s =
     (case poller s of
        P_set \<Rightarrow> Some (s\<lparr>restoreSucceed := True, poller := P_done\<rparr>)
      | P_done \<Rightarrow> Some (wg_Done (s\<lparr>poller := P_finished\<rparr>))
      | P_new_ticker \<Rightarrow> Some (s\<lparr>ticker := Ticking, poller := P_recv\<rparr>)
      | P_loop_set \<Rightarrow> Some (s\<lparr>restoreSucceed := True, poller := P_stop\<rparr>)
      | P_stop \<Rightarrow> Some (s\<lparr>ticker := Stopped, poller := P_loop_done\<rparr>)
      | P_loop_done \<Rightarrow> Some (wg_Done (s\<lparr>poller := P_finished\<rparr>))
      | _ \<Rightarrow> None)"

fun enabled_step :: "string \<Rightarrow> int \<Rightarrow> action \<Rightarrow> monitor \<Rightarrow> monitor option" where
  "enabled_step cid t0 (WaitReturns r) s =
     (if waiter s = W_waiting then Some (s\<lparr>restoreError := r, waiter := W_returned\<rparr>)
      else None)"
| "enabled_step cid t0 WaitStep s =
     (if waiter s = W_returned then Some (wg_Done (s\<lparr>waiter := W_finished\<rparr>)) else None)"
| "enabled_step cid t0 (PollRun f) s =
     (if poller s = P_check
      then Some (s\<lparr>poller := (if isRunning cid f then P_set else P_new_ticker)\<rparr>)
      else if poller s = P_loop_check
      then Some (s\<lparr>poller := (if isRunning cid f then P_loop_set else P_recv)\<rparr>)
      else None)"
| "enabled_step cid t0 Tick s =
     (if poller s = P_recv \<and> ticker s = Ticking then Some (s\<lparr>poller := P_loop_check\<rparr>)
      else None)"
| "enabled_step cid t0 PollStep s = poll_step s"
| "enabled_step cid t0 MainWake s =
     (if mainpc s = M_waiting \<and> wg s = 0 then Some (s\<lparr>mainpc := M_woken\<rparr>) else None)"
| "enabled_step cid t0 (MainReport now) s =
     (if mainpc s = M_woken
      then Some (s\<lparr>mainpc := M_reported (if restoreSucceed s then Succeeded (now - t0)
                                          else Failed (restoreError s))\<rparr>)
      else None)"

definition step :: "string \<Rightarrow> int \<Rightarrow> action \<Rightarrow> monitor \<Rightarrow> monitor option" where
  "step cid t0 a s = (if panicked s then None else enabled_step cid t0 a s)"

fun run :: "string \<Rightarrow> int \<Rightarrow> action list \<Rightarrow> monitor \<Rightarrow> monitor option" where
  "run cid t0 [] s = Some s"
| "run cid t0 (a # as) s =
     (case step cid t0 a s of None \<Rightarrow> None | Some s' \<Rightarrow> run cid t0 as s')"

section \<open>Action as a whole\<close>

datatype migration = Aborted world string err | Monitored world "monitor option"

definition Action :: "env \<Rightarrow> string \<Rightarrow> string \<Rightarrow> bool \<Rightarrow> action list \<Rightarrow> migration" where
  "Action e srcPath dstPath preDump sched =
     (case pipeline e srcPath dstPath preDump of
        Inl (w, msg, err) \<Rightarrow> Aborted w msg err
      | Inr w \<Rightarrow>
          Monitored w (run (getContainerId srcPath) (migrateStart w) sched monitor0))"

section \<open>Observations on a history\<close>

text \<open>
  What the theorems read off a history: whether a call succeeded, which error it returned,
  the entries that are not log lines, whether an entry is a given remote command, the
  entries that come before the first entry of some kind, and the last reading of the clock.
\<close>

definition final_world :: "world result \<Rightarrow> world" where
  "final_world r = (case r of Inl (w, m, x) \<Rightarrow> w | Inr w \<Rightarrow> w)"

fun error_of :: "event \<Rightarrow> err option" where
  "error_of (Ran h argv r) = r"
| "error_of (Copied a b r) = r"
| "error_of (Started h argv r) = r"
| "error_of ev = None"

definition succeeded :: "event \<Rightarrow> bool" where
  "succeeded ev = (error_of ev = None)"

fun is_log :: "event \<Rightarrow> bool" where
  "is_log (Logged m) = True"
| "is_log ev = False"

fun is_clock :: "event \<Rightarrow> bool" where
  "is_clock (ClockRead t) = True"
| "is_clock ev = False"

definition effects :: "event list \<Rightarrow> event list" where
  "effects t = filter (\<lambda>ev. \<not> is_log ev) t"

fun issued :: "host \<Rightarrow> string list \<Rightarrow> event \<Rightarrow> bool" where
  "issued h argv (Ran h' argv' r) = (h' = h \<and> argv' = argv)"
| "issued h argv ev = False"

definition before :: "(event \<Rightarrow> bool) \<Rightarrow> event list \<Rightarrow> event list" where
  "before P t = takeWhile (\<lambda>ev. \<not> P ev) t"

fun clock_of :: "int \<Rightarrow> event \<Rightarrow> int" where
  "clock_of t (ClockRead t') = t'"
| "clock_of t ev = t"

definition last_clock :: "event list \<Rightarrow> int" where
  "last_clock t = foldl clock_of 0 t"

text \<open>
  A checkpoint command line is \<^verbatim>\<open>sudo runc --id <id> checkpoint ...\<close>;
  \<open>checkpoint_cmds\<close> lists the ones a history holds, in order, with the host they ran on.
\<close>

fun is_checkpoint_cmd :: "string list \<Rightarrow> bool" where
  "is_checkpoint_cmd (a # b # c # d # x # rest) =
     (a = ''sudo'' \<and> b = ''runc'' \<and> c = ''--id'' \<and> x = ''checkpoint'')"
| "is_checkpoint_cmd argv = False"

fun checkpoint_cmds :: "event list \<Rightarrow> (host \<times> string list) list" where
  "checkpoint_cmds [] = []"
| "checkpoint_cmds (Ran h argv r # t) =
     (if is_checkpoint_cmd argv then (h, argv) # checkpoint_cmds t else checkpoint_cmds t)"
| "checkpoint_cmds (ev # t) = checkpoint_cmds t"

definition final_checkpoint_argv :: "string \<Rightarrow> string list" where
  "final_checkpoint_argv srcPath =
     [''sudo'', ''runc'', ''--id'', getContainerId srcPath, ''checkpoint'',
      ''--image-path'', srcPath @ ''/images/1'', ''--prev-images-dir'', srcPath @ ''/images/0'']"

section \<open>The statements of a branch in program order\<close>

text \<open>
  A device for the proofs: the statements of a branch as a list, each one of the five
  primitive statements above. \<open>exec\<close> gives a statement its meaning in the model, and
  the two branches of the model are shown below to be the runs of their lists. \<open>ideal\<close>
  is the history a list leaves when no call fails.
\<close>

datatype stmt =
    DoRun host "string list" string
  | DoScp string string string
  | DoStart host "string list" string
  | DoLog string
  | DoClock

fun exec :: "env \<Rightarrow> stmt \<Rightarrow> world \<Rightarrow> world result" where
  "exec e (DoRun h argv msg) = orFatal (Run e h argv) msg"
| "exec e (DoScp a b msg) = orFatal (Scp e a b) msg"
| "exec e (DoStart h argv msg) = orFatal (Start e h argv) msg"
| "exec e (DoLog m) = logPrintln m"
| "exec e DoClock = startClock e"

fun ok_event :: "env \<Rightarrow> event list \<Rightarrow> stmt \<Rightarrow> event" where
  "ok_event e h (DoRun ho argv msg) = Ran ho argv None"
| "ok_event e h (DoScp a b msg) = Copied a b None"
| "ok_event e h (DoStart ho argv msg) = Started ho argv None"
| "ok_event e h (DoLog m) = Logged m"
| "ok_event e h DoClock = ClockRead (time_now e h)"

fun with_error :: "err \<Rightarrow> event \<Rightarrow> event" where
  "with_error x (Ran h argv r) = Ran h argv (Some x)"
| "with_error x (Copied a b r) = Copied a b (Some x)"
| "with_error x (Started h argv r) = Started h argv (Some x)"
| "with_error x ev = ev"

fun fatal_msg :: "stmt \<Rightarrow> string option" where
  "fatal_msg (DoRun h argv msg) = Some msg"
| "fatal_msg (DoScp a b msg) = Some msg"
| "fatal_msg (DoStart h argv msg) = Some msg"
| "fatal_msg st = None"

fun ideal :: "env \<Rightarrow> event list \<Rightarrow> stmt list \<Rightarrow> event list" where
  "ideal e h [] = []"
| "ideal e h (st # sts) = ok_event e h st # ideal e (h @ [ok_event e h st]) sts"

definition andThen ::
  "(world \<Rightarrow> world result) \<Rightarrow> (world \<Rightarrow> world result) \<Rightarrow> world \<Rightarrow> world result" where
  "andThen f g = (\<lambda>w. case f w of Inl x \<Rightarrow> Inl x | Inr w' \<Rightarrow> g w')"

definition predump_script :: "env \<Rightarrow> string \<Rightarrow> string \<Rightarrow> string \<Rightarrow> stmt list" where
  "predump_script e srcPath dstPath containerId =
    [DoRun Src [''mkdir'', ''-p'', srcPath @ ''/images/0''] ''Error preparing pre-dump dir:'',
     DoLog ''Performing the checkpoint predump = true'',
     DoRun Src [''sudo'', ''runc'', ''--id'', containerId, ''checkpoint'', ''--image-path'',
                srcPath @ ''/images/0'', ''--pre-dump''] ''Error performing checkpoint:'',
     DoRun Src [''sudo'', ''tar'', ''-czf'', srcPath @ ''/predump.tar.gz'', ''-C'',
                srcPath @ ''/images/0/'', ''.''] ''Error compressing image in source:'',
     DoRun Dst [''mkdir'', ''-p'', dstPath @ ''/images/0''] ''Error preparing pre-dump dir:'',
     DoLog ''Copying predump image to dst'',
     DoScp (URL e Src (srcPath @ ''/predump.tar.gz'')) (URL e Dst (dstPath @ ''/images/0''))
       ''Error copying predump image files to dst'',
     DoLog ''Preparing image at destination host'',
     DoRun Dst [''sudo'', ''tar'', ''-C'', dstPath @ ''/images/0'', ''-xvzf'',
                dstPath @ ''/images/0/predump.tar.gz'']
       ''Error uncompressing image in destination:'',
     DoClock,
     DoLog ''Performing the checkpoint'',
     DoRun Src [''sudo'', ''runc'', ''--id'', containerId, ''checkpoint'', ''--image-path'',
                srcPath @ ''/images/1'', ''--prev-images-dir'', srcPath @ ''/images/0'']
       ''Error performing checkpoint:'',
     DoRun Src [''sudo'', ''tar'', ''-czf'', srcPath @ ''/dump.tar.gz'', ''-C'',
                srcPath @ ''/images/1/'', ''.''] ''Error compressing image in source:'',
     DoRun Dst [''mkdir'', ''-p'', dstPath @ ''/images/1''] ''Error preparing pre-dump dir:'',
     DoLog ''Copying predump image to dst'',
     DoScp (URL e Src (srcPath @ ''/dump.tar.gz'')) (URL e Dst (dstPath @ ''/images/1''))
       ''Error copying predump image files to dst'',
     DoLog ''Preparing image at destination host'',
     DoRun Dst [''sudo'', ''tar'', ''-C'', dstPath @ ''/images/1'', ''-xvzf'',
                dstPath @ ''/images/1/dump.tar.gz'']
       ''Error uncompressing image in destination:'',
     DoLog ''Performing the restore'',
     DoStart Dst (restore_args containerId dstPath (dstPath @ ''/images/1''))
       ''Error performing restore:'']"

definition single_script :: "env \<Rightarrow> string \<Rightarrow> string \<Rightarrow> string \<Rightarrow> stmt list" where
  "single_script e srcPath dstPath containerId =
    [DoRun Src [''mkdir'', ''-p'', srcPath @ ''/images''] ''Error preparing pre-dump dir:'',
     DoClock,
     DoLog ''Performing the checkpoint predump = false'',
     DoRun Src [''sudo'', ''runc'', ''--id'', containerId, ''checkpoint'', ''--image-path'',
                srcPath @ ''/images''] ''Error performing checkpoint:'',
     DoRun Src [''sudo'', ''tar'', ''-czf'', srcPath @ ''/dump.tar.gz'', ''-C'',
                srcPath @ ''/images/'', ''.''] ''Error compressing image in source:'',
     DoRun Dst [''mkdir'', ''-p'', dstPath @ ''/images''] ''Error preparing pre-dump dir:'',
     DoLog ''Copying checkpoint image to dst'',
     DoScp (URL e Src (srcPath @ ''/dump.tar.gz'')) (URL e Dst (dstPath @ ''/images''))
       ''Error copying image files to dst'',
     DoLog ''Preparing image at destination host'',
     DoRun Dst [''sudo'', ''tar'', ''-C'', dstPath @ ''/images'', ''-xvzf'',
                dstPath @ ''/images/dump.tar.gz'']
       ''Error uncompressing image in destination:'',
     DoLog ''Performing the restore'',
     DoStart Dst (restore_args containerId dstPath (dstPath @ ''/images''))
       ''Error performing restore:'']"

definition start_world :: world where
  "start_world = world0\<lparr>trace := [Logged ''Preparing everything to do a checkpoint'']\<rparr>"

definition clock_inv :: "world \<Rightarrow> bool" where
  "clock_inv w = (migrateStart w = last_clock (trace w))"

section \<open>Environments for the examples\<close>

text \<open>
  Two environments to run the model on: one where every call succeeds, and one where
  every copy between the hosts fails and every other call succeeds.
\<close>

definition env_ok :: env where
  "env_ok = \<lparr>run_result = (\<lambda>h ho argv. None), scp_result = (\<lambda>h a b. None),
             start_result = (\<lambda>h ho argv. None), time_now = (\<lambda>h. int (length h)),
             URL = (\<lambda>ho p. (case ho of Src \<Rightarrow> ''src:'' | Dst \<Rightarrow> ''dst:'') @ p)\<rparr>"

definition env_scp_fails :: env where
  "env_scp_fails = env_ok\<lparr>scp_result := (\<lambda>h a b. Some ''lost connection'')\<rparr>"

section \<open>Observations on an execution of the monitor\<close>

text \<open>
  What the theorems read off a list of actions: whether an action is a liveness check that
  reports the container running, whether it is the return of \<^verbatim>\<open>restoreCmd.Wait()\<close>,
  whether it is a tick, whether it is the signal of the process-wait task, and what the
  first liveness check of the execution reported. The predicates ending in \<open>_inv\<close> are the
  invariants the proofs carry along an execution.
\<close>

fun is_hit :: "string \<Rightarrow> action \<Rightarrow> bool" where
  "is_hit cid (PollRun f) = isRunning cid f"
| "is_hit cid a = False"

fun is_wait_return :: "action \<Rightarrow> bool" where
  "is_wait_return (WaitReturns r) = True"
| "is_wait_return a = False"




definition nohit_inv :: "string \<Rightarrow> action list \<Rightarrow> monitor \<Rightarrow> bool" where
  "nohit_inv cid sched s =
     (list_all (\<lambda>a. \<not> is_hit cid a) sched \<longrightarrow>
       \<not> restoreSucceed s \<and> \<not> panicked s
       \<and> poller s \<in> {P_check, P_new_ticker, P_recv, P_loop_check}
       \<and> wg s = (if waiter s = W_finished then 0 else 1)
       \<and> (mainpc s \<noteq> M_waiting \<longrightarrow> waiter s = W_finished)
       \<and> (\<forall>oc. mainpc s = M_reported oc \<longrightarrow> oc = Failed (restoreError s))
       \<and> (\<forall>r. WaitReturns r \<in> set sched \<longrightarrow> restoreError s = r \<and> waiter s \<noteq> W_waiting)
       \<and> (waiter s = W_waiting \<longrightarrow> list_all (\<lambda>a. \<not> is_wait_return a) sched))"


definition hit_inv :: "string \<Rightarrow> action list \<Rightarrow> monitor \<Rightarrow> bool" where
  "hit_inv cid sched s =
     ((restoreSucceed s \<longrightarrow> list_ex (is_hit cid) sched)
      \<and> (poller s \<in> {P_set, P_loop_set} \<longrightarrow> list_ex (is_hit cid) sched)
      \<and> (poller s \<in> {P_done, P_stop, P_loop_done, P_finished} \<longrightarrow> restoreSucceed s)
      \<and> (ticker s = Stopped \<longrightarrow> poller s \<in> {P_loop_done, P_finished})
      \<and> (\<forall>d. mainpc s = M_reported (Succeeded d) \<longrightarrow> restoreSucceed s))"





section \<open>Runs of a statement list\<close>

lemma exec_Inr: "exec e st w = Inr w' \<Longrightarrow> trace w' = trace w @ [ok_event e (trace w) st]"
  by (cases st)
     (auto simp: orFatal_def Run_def Scp_def Start_def logPrintln_def startClock_def Let_def
           split: option.splits)

lemma exec_Inl:
  "exec e st w = Inl (w', m, x) \<Longrightarrow>
     trace w' = trace w @ [with_error x (ok_event e (trace w) st)] \<and> fatal_msg st = Some m"
  by (cases st)
     (auto simp: orFatal_def Run_def Scp_def Start_def logPrintln_def startClock_def Let_def
           split: option.splits)

lemma steps_script:
  "(case steps (map (exec e) sc) w of
      Inr w' \<Rightarrow> trace w' = trace w @ ideal e (trace w) sc
    | Inl (w', m, x) \<Rightarrow>
        (\<exists>k<length sc. trace w' = trace w @ take k (ideal e (trace w) sc)
                                  @ [with_error x (ideal e (trace w) sc ! k)]
                        \<and> fatal_msg (sc ! k) = Some m))"
proof (induction sc arbitrary: w)
  case Nil
  show ?case by simp
next
  case (Cons st sc)
  show ?case
  proof (cases "exec e st w")
    case (Inl a)
    obtain w' m x where a: "a = (w', m, x)" by (cases a)
    from exec_Inl[of e st w w' m x] Inl a show ?thesis by auto
  next
    case (Inr w1)
    from exec_Inr[OF Inr] have t1: "trace w1 = trace w @ [ok_event e (trace w) st]" .
    show ?thesis
    proof (cases "steps (map (exec e) sc) w1")
      case (Inr w2)
      with Cons.IH[of w1] t1 \<open>exec e st w = Inr w1\<close> show ?thesis by simp
    next
      case (Inl a)
      obtain w' m x where a: "a = (w', m, x)" by (cases a)
      from Cons.IH[of w1] Inl a obtain k where k: "k < length sc"
        "trace w' = trace w1 @ take k (ideal e (trace w1) sc)
                      @ [with_error x (ideal e (trace w1) sc ! k)]"
        "fatal_msg (sc ! k) = Some m" by auto
      have "Suc k < length (st # sc)" using k by simp
      moreover have "trace w' = trace w @ take (Suc k) (ideal e (trace w) (st # sc))
                                  @ [with_error x (ideal e (trace w) (st # sc) ! Suc k)]"
        using k t1 by simp
      moreover have "fatal_msg ((st # sc) ! Suc k) = Some m" using k by simp
      ultimately show ?thesis
        using Inl a \<open>exec e st w = Inr w1\<close> by (auto intro!: exI[of _ "Suc k"])
    qed
  qed
qed

lemma ideal_succeeded: "list_all succeeded (ideal e h sc)"
proof (induction sc arbitrary: h)
  case Nil
  show ?case by simp
next
  case (Cons st sc)
  have "succeeded (ok_event e h st)" by (cases st) (simp_all add: succeeded_def)
  with Cons show ?case by simp
qed

lemma ideal_failing:
  "k < length sc \<Longrightarrow> fatal_msg (sc ! k) = Some m \<Longrightarrow>
     error_of (with_error x (ideal e h sc ! k)) = Some x"
proof (induction sc arbitrary: h k)
  case Nil
  then show ?case by simp
next
  case (Cons st sc)
  show ?case
  proof (cases k)
    case 0
    with Cons.prems show ?thesis by (cases st) simp_all
  next
    case (Suc j)
    with Cons.prems Cons.IH[of j] show ?thesis by simp
  qed
qed

lemma exec_clock_inv: "clock_inv w \<Longrightarrow> clock_inv (final_world (exec e st w))"
  by (cases st)
     (auto simp: clock_inv_def last_clock_def final_world_def orFatal_def Run_def Scp_def
                 Start_def logPrintln_def startClock_def Let_def split: option.splits)

lemma steps_clock_inv: "clock_inv w \<Longrightarrow> clock_inv (final_world (steps (map (exec e) sc) w))"
proof (induction sc arbitrary: w)
  case Nil
  then show ?case by (simp add: final_world_def)
next
  case (Cons st sc)
  show ?case
  proof (cases "exec e st w")
    case (Inl a)
    with exec_clock_inv[OF Cons.prems, of e st] show ?thesis by simp
  next
    case (Inr w1)
    with exec_clock_inv[OF Cons.prems, of e st] have "clock_inv w1" by (simp add: final_world_def)
    from Cons.IH[OF this] Inr show ?thesis by simp
  qed
qed

section \<open>The two branches are the runs of their statement lists\<close>

lemma steps_Nil_eq: "steps [] = Inr"
  by (rule ext) simp

lemma steps_Cons_eq: "steps (f # fs) = andThen f (steps fs)"
  by (rule ext) (simp add: andThen_def)

lemma andThen_assoc: "andThen (andThen f g) h = andThen f (andThen g h)"
  by (rule ext) (simp add: andThen_def split: sum.splits)

lemma andThen_Inr: "andThen Inr g = g" "andThen f Inr = f"
  by (rule ext, simp add: andThen_def split: sum.splits)+

lemmas flatten = steps_Nil_eq steps_Cons_eq andThen_assoc andThen_Inr

lemma predump_branch_script:
  "predump_branch e srcPath dstPath cid = steps (map (exec e) (predump_script e srcPath dstPath cid))"
  by (simp add: predump_branch_def predump_script_def prepareDir_def checkpoint_def prepareTar_def
        unpackTar_def checkpoint_args_def Let_def flatten)

lemma single_branch_script:
  "single_branch e srcPath dstPath cid = steps (map (exec e) (single_script e srcPath dstPath cid))"
  by (simp add: single_branch_def single_script_def prepareDir_def checkpoint_def prepareTar_def
        unpackTar_def checkpoint_args_def Let_def flatten)

lemma pipeline_script:
  "pipeline e srcPath dstPath preDump =
     steps (map (exec e) ((if preDump then predump_script else single_script)
                             e srcPath dstPath (getContainerId srcPath))) start_world"
  by (simp add: pipeline_def logPrintln_def world0_def start_world_def predump_branch_script
        single_branch_script)

text \<open>Every run of the pipeline, in one of two shapes.\<close>

lemma pipeline_cases:
  fixes e srcPath dstPath preDump
  defines "sc \<equiv> (if preDump then predump_script else single_script)
                   e srcPath dstPath (getContainerId srcPath)"
  defines "I \<equiv> ideal e (trace start_world) sc"
  obtains (launched) w where "pipeline e srcPath dstPath preDump = Inr w"
      "trace w = trace start_world @ I" "migrateStart w = last_clock (trace w)"
  | (aborted) w m x k where "pipeline e srcPath dstPath preDump = Inl (w, m, x)"
      "k < length sc" "trace w = trace start_world @ take k I @ [with_error x (I ! k)]"
      "fatal_msg (sc ! k) = Some m" "migrateStart w = last_clock (trace w)"
proof -
  let ?r = "steps (map (exec e) sc) start_world"
  have p: "pipeline e srcPath dstPath preDump = ?r" by (simp add: pipeline_script sc_def)
  have "clock_inv start_world" by (simp add: clock_inv_def last_clock_def world0_def start_world_def)
  from steps_clock_inv[OF this, where e=e and sc=sc]
  have ms: "migrateStart (final_world ?r) = last_clock (trace (final_world ?r))"
    by (simp add: clock_inv_def)
  show thesis
  proof (cases ?r)
    case (Inr w)
    with steps_script[where e=e and sc=sc and w=start_world]
    have "trace w = trace start_world @ I" by (simp add: I_def)
    moreover from ms Inr have "migrateStart w = last_clock (trace w)" by (simp add: final_world_def)
    ultimately show thesis using launched p Inr by simp
  next
    case (Inl a)
    obtain w m x where a: "a = (w, m, x)" by (cases a)
    with steps_script[where e=e and sc=sc and w=start_world] Inl
    obtain k where "k < length sc"
      "trace w = trace start_world @ take k I @ [with_error x (I ! k)]"
      "fatal_msg (sc ! k) = Some m" by (auto simp: I_def)
    moreover from ms Inl a have "migrateStart w = last_clock (trace w)" by (simp add: final_world_def)
    ultimately show thesis using aborted p Inl a by simp
  qed
qed

lemma below20:
  "k < (20::nat) \<Longrightarrow> k = 0 \<or> k = 1 \<or> k = 2 \<or> k = 3 \<or> k = 4 \<or> k = 5 \<or> k = 6 \<or> k = 7
   \<or> k = 8 \<or> k = 9 \<or> k = 10 \<or> k = 11 \<or> k = 12 \<or> k = 13 \<or> k = 14 \<or> k = 15 \<or> k = 16 \<or> k = 17
   \<or> k = 18 \<or> k = 19"
  by arith

lemma below12:
  "k < (12::nat) \<Longrightarrow> k = 0 \<or> k = 1 \<or> k = 2 \<or> k = 3 \<or> k = 4 \<or> k = 5 \<or> k = 6 \<or> k = 7
   \<or> k = 8 \<or> k = 9 \<or> k = 10 \<or> k = 11"
  by arith

lemmas trace_simps = predump_script_def single_script_def world0_def start_world_def effects_def
  before_def final_checkpoint_argv_def last_clock_def final_world_def

section \<open>Two runs of the pipeline\<close>

lemma env_ok_URL: "URL env_ok Src p = ''src:'' @ p" "URL env_ok Dst p = ''dst:'' @ p"
  by (simp_all add: env_ok_def)

lemma demo_predump_run:
  "pipeline env_ok ''/run/c2'' ''/var/c2'' True =
     Inr \<lparr>trace =
        [Logged ''Preparing everything to do a checkpoint'',
         Ran Src [''mkdir'', ''-p'', ''/run/c2/images/0''] None,
         Logged ''Performing the checkpoint predump = true'',
         Ran Src [''sudo'', ''runc'', ''--id'', ''c2'', ''checkpoint'',
                  ''--image-path'', ''/run/c2/images/0'', ''--pre-dump''] None,
         Ran Src [''sudo'', ''tar'', ''-czf'', ''/run/c2/predump.tar.gz'', ''-C'',
                  ''/run/c2/images/0/'', ''.''] None,
         Ran Dst [''mkdir'', ''-p'', ''/var/c2/images/0''] None,
         Logged ''Copying predump image to dst'',
         Copied ''src:/run/c2/predump.tar.gz'' ''dst:/var/c2/images/0'' None,
         Logged ''Preparing image at destination host'',
         Ran Dst [''sudo'', ''tar'', ''-C'', ''/var/c2/images/0'', ''-xvzf'',
                  ''/var/c2/images/0/predump.tar.gz''] None,
         ClockRead 10,
         Logged ''Performing the checkpoint'',
         Ran Src [''sudo'', ''runc'', ''--id'', ''c2'', ''checkpoint'',
                  ''--image-path'', ''/run/c2/images/1'', ''--prev-images-dir'',
                  ''/run/c2/images/0''] None,
         Ran Src [''sudo'', ''tar'', ''-czf'', ''/run/c2/dump.tar.gz'', ''-C'',
                  ''/run/c2/images/1/'', ''.''] None,
         Ran Dst [''mkdir'', ''-p'', ''/var/c2/images/1''] None,
         Logged ''Copying predump image to dst'',
         Copied ''src:/run/c2/dump.tar.gz'' ''dst:/var/c2/images/1'' None,
         Logged ''Preparing image at destination host'',
         Ran Dst [''sudo'', ''tar'', ''-C'', ''/var/c2/images/1'', ''-xvzf'',
                  ''/var/c2/images/1/dump.tar.gz''] None,
         Logged ''Performing the restore'',
         Started Dst [''sudo'', ''runc'', ''--id'', ''c2'', ''restore'',
                      ''--image-path'', ''/var/c2/images/1'', ''--config-file'',
                      ''/var/c2/config.json'', ''--runtime-file'', ''/var/c2/runtime.json''] None],
       migrateStart = 10,
       restoreCmd = Some (Dst, [''sudo'', ''runc'', ''--id'', ''c2'', ''restore'',
                      ''--image-path'', ''/var/c2/images/1'', ''--config-file'',
                      ''/var/c2/config.json'', ''--runtime-file'', ''/var/c2/runtime.json''])\<rparr>"
  by (simp add: pipeline_script predump_script_def start_world_def world0_def getContainerId_def
        env_ok_def restore_args_def orFatal_def Run_def Scp_def Start_def logPrintln_def
        startClock_def Let_def)

lemma demo_single_run:
  "pipeline env_ok ''/run/c1'' ''/var/c1'' False =
     Inr \<lparr>trace =
        [Logged ''Preparing everything to do a checkpoint'',
         Ran Src [''mkdir'', ''-p'', ''/run/c1/images''] None,
         ClockRead 2,
         Logged ''Performing the checkpoint predump = false'',
         Ran Src [''sudo'', ''runc'', ''--id'', ''c1'', ''checkpoint'',
                  ''--image-path'', ''/run/c1/images''] None,
         Ran Src [''sudo'', ''tar'', ''-czf'', ''/run/c1/dump.tar.gz'', ''-C'',
                  ''/run/c1/images/'', ''.''] None,
         Ran Dst [''mkdir'', ''-p'', ''/var/c1/images''] None,
         Logged ''Copying checkpoint image to dst'',
         Copied ''src:/run/c1/dump.tar.gz'' ''dst:/var/c1/images'' None,
         Logged ''Preparing image at destination host'',
         Ran Dst [''sudo'', ''tar'', ''-C'', ''/var/c1/images'', ''-xvzf'',
                  ''/var/c1/images/dump.tar.gz''] None,
         Logged ''Performing the restore'',
         Started Dst [''sudo'', ''runc'', ''--id'', ''c1'', ''restore'',
                      ''--image-path'', ''/var/c1/images'', ''--config-file'',
                      ''/var/c1/config.json'', ''--runtime-file'', ''/var/c1/runtime.json''] None],
       migrateStart = 2,
       restoreCmd = Some (Dst, [''sudo'', ''runc'', ''--id'', ''c1'', ''restore'',
                      ''--image-path'', ''/var/c1/images'', ''--config-file'',
                      ''/var/c1/config.json'', ''--runtime-file'', ''/var/c1/runtime.json''])\<rparr>"
  by (simp add: pipeline_script single_script_def start_world_def world0_def getContainerId_def
        env_ok_def restore_args_def orFatal_def Run_def Scp_def Start_def logPrintln_def
        startClock_def Let_def)

lemma list_all_take: "list_all P xs \<Longrightarrow> list_all P (take k xs)"
  by (auto simp: list_all_iff dest: in_set_takeD)

section \<open>The order of the pipeline\<close>

text \<open>
  Claim C4. In pre-dump mode, whenever the final checkpoint command (image path
  \<open>images/1\<close>, previous images \<open>images/0\<close>) is issued, what was done before it is exactly:
  the generation-0 directory, checkpoint with \<^verbatim>\<open>--pre-dump\<close>, archive, destination
  directory, transfer and unpack, every one of them returned without error, and then the one
  reading of the clock that sets \<^verbatim>\<open>migrateStart\<close>. The clock is read once in the whole
  run. This holds for every environment, whether the run ends launched or aborted.
\<close>

theorem predump_generation0_before_final_checkpoint:
  assumes "list_ex (issued Src (final_checkpoint_argv srcPath))
             (trace (final_world (pipeline e srcPath dstPath True)))"
  shows "effects (before (issued Src (final_checkpoint_argv srcPath))
                    (trace (final_world (pipeline e srcPath dstPath True))))
     = [Ran Src [''mkdir'', ''-p'', srcPath @ ''/images/0''] None,
        Ran Src [''sudo'', ''runc'', ''--id'', getContainerId srcPath, ''checkpoint'',
                 ''--image-path'', srcPath @ ''/images/0'', ''--pre-dump''] None,
        Ran Src [''sudo'', ''tar'', ''-czf'', srcPath @ ''/predump.tar.gz'', ''-C'',
                 srcPath @ ''/images/0/'', ''.''] None,
        Ran Dst [''mkdir'', ''-p'', dstPath @ ''/images/0''] None,
        Copied (URL e Src (srcPath @ ''/predump.tar.gz'')) (URL e Dst (dstPath @ ''/images/0'')) None,
        Ran Dst [''sudo'', ''tar'', ''-C'', dstPath @ ''/images/0'', ''-xvzf'',
                 dstPath @ ''/images/0/predump.tar.gz''] None,
        ClockRead (migrateStart (final_world (pipeline e srcPath dstPath True)))]
    \<and> length (filter is_clock (trace (final_world (pipeline e srcPath dstPath True)))) = 1"
proof (cases rule: pipeline_cases[of e srcPath dstPath True])
  case (launched w)
  then show ?thesis by (simp add: trace_simps)
next
  case (aborted w m x k)
  from aborted(2) have "k < 20" by (simp add: predump_script_def)
  from below20[OF this] assms aborted(1,3,4,5) show ?thesis
    by (elim disjE) (simp_all add: trace_simps)
qed


theorem predump_generation0_before_final_checkpoint_witness:
  "list_ex (issued Src (final_checkpoint_argv ''/run/c2''))
     (trace (final_world (pipeline env_ok ''/run/c2'' ''/var/c2'' True)))
   \<and> effects (before (issued Src (final_checkpoint_argv ''/run/c2''))
                (trace (final_world (pipeline env_ok ''/run/c2'' ''/var/c2'' True))))
     = [Ran Src [''mkdir'', ''-p'', ''/run/c2/images/0''] None,
        Ran Src [''sudo'', ''runc'', ''--id'', ''c2'', ''checkpoint'',
                 ''--image-path'', ''/run/c2/images/0'', ''--pre-dump''] None,
        Ran Src [''sudo'', ''tar'', ''-czf'', ''/run/c2/predump.tar.gz'', ''-C'',
                 ''/run/c2/images/0/'', ''.''] None,
        Ran Dst [''mkdir'', ''-p'', ''/var/c2/images/0''] None,
        Copied ''src:/run/c2/predump.tar.gz'' ''dst:/var/c2/images/0'' None,
        Ran Dst [''sudo'', ''tar'', ''-C'', ''/var/c2/images/0'', ''-xvzf'',
                 ''/var/c2/images/0/predump.tar.gz''] None,
        ClockRead 10]"
proof -
  have h: "list_ex (issued Src (final_checkpoint_argv ''/run/c2''))
             (trace (final_world (pipeline env_ok ''/run/c2'' ''/var/c2'' True)))"
    by (simp add: demo_predump_run final_world_def final_checkpoint_argv_def getContainerId_def)
  from predump_generation0_before_final_checkpoint[where e=env_ok and srcPath="''/run/c2''" and dstPath="''/var/c2''", OF h] h
  show ?thesis
    by (simp add: demo_predump_run final_world_def getContainerId_def env_ok_URL)
qed

text \<open>
  Claim C5. Without pre-dump, a run in which no step fails does exactly one generation:
  one directory, one reading of the clock into \<^verbatim>\<open>migrateStart\<close>, one checkpoint, one
  archive, one destination directory, one transfer, one unpack, then the restore launch, in
  this order. In every run, launched or aborted, in which the checkpoint command is issued,
  the clock was read before it (only the directory precedes the clock), and at most one
  checkpoint command is issued.
\<close>

theorem single_pass_one_generation:
  "(\<forall>w. pipeline e srcPath dstPath False = Inr w \<longrightarrow>
       effects (trace w)
       = [Ran Src [''mkdir'', ''-p'', srcPath @ ''/images''] None,
          ClockRead (migrateStart w),
          Ran Src (''sudo'' # checkpoint_args (getContainerId srcPath) (srcPath @ ''/images'') False) None,
          Ran Src [''sudo'', ''tar'', ''-czf'', srcPath @ ''/dump.tar.gz'', ''-C'',
                   srcPath @ ''/images/'', ''.''] None,
          Ran Dst [''mkdir'', ''-p'', dstPath @ ''/images''] None,
          Copied (URL e Src (srcPath @ ''/dump.tar.gz'')) (URL e Dst (dstPath @ ''/images'')) None,
          Ran Dst [''sudo'', ''tar'', ''-C'', dstPath @ ''/images'', ''-xvzf'',
                   dstPath @ ''/images/dump.tar.gz''] None,
          Started Dst (restore_args (getContainerId srcPath) dstPath (dstPath @ ''/images'')) None])
   \<and> (list_ex (issued Src (''sudo'' # checkpoint_args (getContainerId srcPath) (srcPath @ ''/images'') False))
         (trace (final_world (pipeline e srcPath dstPath False))) \<longrightarrow>
       effects (before (issued Src (''sudo'' # checkpoint_args (getContainerId srcPath) (srcPath @ ''/images'') False))
                  (trace (final_world (pipeline e srcPath dstPath False))))
       = [Ran Src [''mkdir'', ''-p'', srcPath @ ''/images''] None,
          ClockRead (migrateStart (final_world (pipeline e srcPath dstPath False)))])
   \<and> length (checkpoint_cmds (trace (final_world (pipeline e srcPath dstPath False)))) \<le> 1"
proof (cases rule: pipeline_cases[of e srcPath dstPath False])
  case (launched w)
  then show ?thesis by (simp add: trace_simps checkpoint_args_def)
next
  case (aborted w m x k)
  from aborted(2) have "k < 12" by (simp add: single_script_def)
  from below12[OF this] aborted(1,3,4,5) show ?thesis
    by (elim disjE) (simp_all add: trace_simps checkpoint_args_def)
qed

theorem single_pass_one_generation_witness:
  "effects (trace (final_world (pipeline env_ok ''/run/c1'' ''/var/c1'' False)))
     = [Ran Src [''mkdir'', ''-p'', ''/run/c1/images''] None,
        ClockRead 2,
        Ran Src [''sudo'', ''runc'', ''--id'', ''c1'', ''checkpoint'',
                 ''--image-path'', ''/run/c1/images''] None,
        Ran Src [''sudo'', ''tar'', ''-czf'', ''/run/c1/dump.tar.gz'', ''-C'',
                 ''/run/c1/images/'', ''.''] None,
        Ran Dst [''mkdir'', ''-p'', ''/var/c1/images''] None,
        Copied ''src:/run/c1/dump.tar.gz'' ''dst:/var/c1/images'' None,
        Ran Dst [''sudo'', ''tar'', ''-C'', ''/var/c1/images'', ''-xvzf'',
                 ''/var/c1/images/dump.tar.gz''] None,
        Started Dst [''sudo'', ''runc'', ''--id'', ''c1'', ''restore'',
                     ''--image-path'', ''/var/c1/images'', ''--config-file'',
                     ''/var/c1/config.json'', ''--runtime-file'', ''/var/c1/runtime.json''] None]
   \<and> list_ex (issued Src [''sudo'', ''runc'', ''--id'', ''c1'', ''checkpoint'',
                            ''--image-path'', ''/run/c1/images''])
         (trace (final_world (pipeline env_ok ''/run/c1'' ''/var/c1'' False)))
   \<and> effects (before (issued Src [''sudo'', ''runc'', ''--id'', ''c1'', ''checkpoint'',
                                   ''--image-path'', ''/run/c1/images''])
                (trace (final_world (pipeline env_ok ''/run/c1'' ''/var/c1'' False))))
     = [Ran Src [''mkdir'', ''-p'', ''/run/c1/images''] None, ClockRead 2]"
  using single_pass_one_generation[where e=env_ok and srcPath="''/run/c1''" and dstPath="''/var/c1''"]
  by (simp add: demo_single_run final_world_def getContainerId_def env_ok_URL checkpoint_args_def
        restore_args_def)

text \<open>
  Claim C6. The helper \<^verbatim>\<open>checkpoint\<close> appends \<^verbatim>\<open>--pre-dump\<close> to its command line
  exactly when its \<open>predump\<close> argument is true, and appends nothing else. The checkpoint
  commands of a pre-dump migration are, in order, the pre-dump one (image path
  \<open>images/0\<close>, \<^verbatim>\<open>--pre-dump\<close>, no \<^verbatim>\<open>--prev-images-dir\<close>) and the final one (image path
  \<open>images/1\<close>, \<^verbatim>\<open>--prev-images-dir\<close> followed by the source's \<open>images/0\<close>, no
  \<^verbatim>\<open>--pre-dump\<close>); an aborted run issues a prefix of the two. The one checkpoint command
  of a single-pass migration carries neither option.
\<close>

theorem checkpoint_command_lines:
  "checkpoint_args cid path pd =
     [''runc'', ''--id'', cid, ''checkpoint'', ''--image-path'', path]
       @ (if pd then [''--pre-dump''] else [])
   \<and> (checkpoint_cmds (trace (final_world (pipeline e srcPath dstPath True)))
        \<in> {[],
           [(Src, ''sudo'' # checkpoint_args (getContainerId srcPath) (srcPath @ ''/images/0'') True)],
           [(Src, ''sudo'' # checkpoint_args (getContainerId srcPath) (srcPath @ ''/images/0'') True),
            (Src, [''sudo'', ''runc'', ''--id'', getContainerId srcPath, ''checkpoint'',
                   ''--image-path'', srcPath @ ''/images/1'',
                   ''--prev-images-dir'', srcPath @ ''/images/0''])]})
   \<and> (\<forall>w. pipeline e srcPath dstPath True = Inr w \<longrightarrow>
         checkpoint_cmds (trace w)
         = [(Src, [''sudo'', ''runc'', ''--id'', getContainerId srcPath, ''checkpoint'',
                   ''--image-path'', srcPath @ ''/images/0'', ''--pre-dump'']),
            (Src, [''sudo'', ''runc'', ''--id'', getContainerId srcPath, ''checkpoint'',
                   ''--image-path'', srcPath @ ''/images/1'',
                   ''--prev-images-dir'', srcPath @ ''/images/0''])])
   \<and> (checkpoint_cmds (trace (final_world (pipeline e srcPath dstPath False)))
        \<in> {[],
           [(Src, ''sudo'' # checkpoint_args (getContainerId srcPath) (srcPath @ ''/images'') False)]})
   \<and> (\<forall>w. pipeline e srcPath dstPath False = Inr w \<longrightarrow>
         checkpoint_cmds (trace w)
         = [(Src, [''sudo'', ''runc'', ''--id'', getContainerId srcPath, ''checkpoint'',
                   ''--image-path'', srcPath @ ''/images''])])"
proof -
  have a: "checkpoint_args cid path pd =
     [''runc'', ''--id'', cid, ''checkpoint'', ''--image-path'', path]
       @ (if pd then [''--pre-dump''] else [])"
    by (simp add: checkpoint_args_def)
  have b: "checkpoint_cmds (trace (final_world (pipeline e srcPath dstPath True)))
        \<in> {[],
           [(Src, ''sudo'' # checkpoint_args (getContainerId srcPath) (srcPath @ ''/images/0'') True)],
           [(Src, ''sudo'' # checkpoint_args (getContainerId srcPath) (srcPath @ ''/images/0'') True),
            (Src, [''sudo'', ''runc'', ''--id'', getContainerId srcPath, ''checkpoint'',
                   ''--image-path'', srcPath @ ''/images/1'',
                   ''--prev-images-dir'', srcPath @ ''/images/0''])]}
   \<and> (\<forall>w. pipeline e srcPath dstPath True = Inr w \<longrightarrow>
         checkpoint_cmds (trace w)
         = [(Src, [''sudo'', ''runc'', ''--id'', getContainerId srcPath, ''checkpoint'',
                   ''--image-path'', srcPath @ ''/images/0'', ''--pre-dump'']),
            (Src, [''sudo'', ''runc'', ''--id'', getContainerId srcPath, ''checkpoint'',
                   ''--image-path'', srcPath @ ''/images/1'',
                   ''--prev-images-dir'', srcPath @ ''/images/0''])])"
  proof (cases rule: pipeline_cases[of e srcPath dstPath True])
    case (launched w)
    then show ?thesis by (simp add: trace_simps checkpoint_args_def)
  next
    case (aborted w m x k)
    from aborted(2) have "k < 20" by (simp add: predump_script_def)
    from below20[OF this] aborted(1,3) show ?thesis
      by (elim disjE) (simp_all add: trace_simps checkpoint_args_def)
  qed
  have c: "checkpoint_cmds (trace (final_world (pipeline e srcPath dstPath False)))
        \<in> {[],
           [(Src, ''sudo'' # checkpoint_args (getContainerId srcPath) (srcPath @ ''/images'') False)]}
   \<and> (\<forall>w. pipeline e srcPath dstPath False = Inr w \<longrightarrow>
         checkpoint_cmds (trace w)
         = [(Src, [''sudo'', ''runc'', ''--id'', getContainerId srcPath, ''checkpoint'',
                   ''--image-path'', srcPath @ ''/images''])])"
  proof (cases rule: pipeline_cases[of e srcPath dstPath False])
    case (launched w)
    then show ?thesis by (simp add: trace_simps checkpoint_args_def)
  next
    case (aborted w m x k)
    from aborted(2) have "k < 12" by (simp add: single_script_def)
    from below12[OF this] aborted(1,3) show ?thesis
      by (elim disjE) (simp_all add: trace_simps checkpoint_args_def)
  qed
  show ?thesis
    by (intro conjI) (rule a conjunct1[OF b] conjunct2[OF b] conjunct1[OF c] conjunct2[OF c])+
qed

theorem checkpoint_command_lines_witness:
  "checkpoint_args ''c2'' ''/run/c2/images/0'' True
     = [''runc'', ''--id'', ''c2'', ''checkpoint'', ''--image-path'', ''/run/c2/images/0'', ''--pre-dump'']
   \<and> checkpoint_cmds (trace (final_world (pipeline env_ok ''/run/c2'' ''/var/c2'' True)))
     = [(Src, [''sudo'', ''runc'', ''--id'', ''c2'', ''checkpoint'',
               ''--image-path'', ''/run/c2/images/0'', ''--pre-dump'']),
        (Src, [''sudo'', ''runc'', ''--id'', ''c2'', ''checkpoint'',
               ''--image-path'', ''/run/c2/images/1'', ''--prev-images-dir'', ''/run/c2/images/0''])]
   \<and> checkpoint_cmds (trace (final_world (pipeline env_ok ''/run/c1'' ''/var/c1'' False)))
     = [(Src, [''sudo'', ''runc'', ''--id'', ''c1'', ''checkpoint'',
               ''--image-path'', ''/run/c1/images''])]"
proof -
  let ?w = "final_world (pipeline env_ok ''/run/c2'' ''/var/c2'' True)"
  let ?v = "final_world (pipeline env_ok ''/run/c1'' ''/var/c1'' False)"
  note t = checkpoint_command_lines[where e=env_ok and srcPath="''/run/c2''"
             and dstPath="''/var/c2''" and cid="''c2''" and path="''/run/c2/images/0''"
             and pd=True]
  note u = checkpoint_command_lines[where e=env_ok and srcPath="''/run/c1''"
             and dstPath="''/var/c1''" and cid="''c1''" and path="''/run/c1/images''"
             and pd=False]
  have r: "pipeline env_ok ''/run/c2'' ''/var/c2'' True = Inr ?w"
    by (simp add: demo_predump_run final_world_def)
  have q: "pipeline env_ok ''/run/c1'' ''/var/c1'' False = Inr ?v"
    by (simp add: demo_single_run final_world_def)
  from t have a: "checkpoint_args ''c2'' ''/run/c2/images/0'' True
     = [''runc'', ''--id'', ''c2'', ''checkpoint'', ''--image-path'', ''/run/c2/images/0'']
         @ (if True then [''--pre-dump''] else [])"
    by (rule conjunct1)
  from t have "\<forall>w. pipeline env_ok ''/run/c2'' ''/var/c2'' True = Inr w \<longrightarrow>
         checkpoint_cmds (trace w)
         = [(Src, [''sudo'', ''runc'', ''--id'', getContainerId ''/run/c2'', ''checkpoint'',
                   ''--image-path'', ''/run/c2'' @ ''/images/0'', ''--pre-dump'']),
            (Src, [''sudo'', ''runc'', ''--id'', getContainerId ''/run/c2'', ''checkpoint'',
                   ''--image-path'', ''/run/c2'' @ ''/images/1'',
                   ''--prev-images-dir'', ''/run/c2'' @ ''/images/0''])]"
    by (rule conjunct1[OF conjunct2[OF conjunct2]])
  from mp[OF spec[OF this] r] have b: "checkpoint_cmds (trace ?w)
         = [(Src, [''sudo'', ''runc'', ''--id'', getContainerId ''/run/c2'', ''checkpoint'',
                   ''--image-path'', ''/run/c2'' @ ''/images/0'', ''--pre-dump'']),
            (Src, [''sudo'', ''runc'', ''--id'', getContainerId ''/run/c2'', ''checkpoint'',
                   ''--image-path'', ''/run/c2'' @ ''/images/1'',
                   ''--prev-images-dir'', ''/run/c2'' @ ''/images/0''])]" .
  from u have "\<forall>w. pipeline env_ok ''/run/c1'' ''/var/c1'' False = Inr w \<longrightarrow>
         checkpoint_cmds (trace w)
         = [(Src, [''sudo'', ''runc'', ''--id'', getContainerId ''/run/c1'', ''checkpoint'',
                   ''--image-path'', ''/run/c1'' @ ''/images''])]"
    by (rule conjunct2[OF conjunct2[OF conjunct2[OF conjunct2]]])
  from mp[OF spec[OF this] q] have c: "checkpoint_cmds (trace ?v)
         = [(Src, [''sudo'', ''runc'', ''--id'', getContainerId ''/run/c1'', ''checkpoint'',
                   ''--image-path'', ''/run/c1'' @ ''/images''])]" .
  from a have a': "checkpoint_args ''c2'' ''/run/c2/images/0'' True
     = [''runc'', ''--id'', ''c2'', ''checkpoint'', ''--image-path'', ''/run/c2/images/0'', ''--pre-dump'']"
    by simp
  from b have b': "checkpoint_cmds (trace ?w)
     = [(Src, [''sudo'', ''runc'', ''--id'', ''c2'', ''checkpoint'',
               ''--image-path'', ''/run/c2/images/0'', ''--pre-dump'']),
        (Src, [''sudo'', ''runc'', ''--id'', ''c2'', ''checkpoint'',
               ''--image-path'', ''/run/c2/images/1'', ''--prev-images-dir'', ''/run/c2/images/0''])]"
    by (simp add: getContainerId_def)
  from c have c': "checkpoint_cmds (trace ?v)
     = [(Src, [''sudo'', ''runc'', ''--id'', ''c1'', ''checkpoint'',
               ''--image-path'', ''/run/c1/images''])]"
    by (simp add: getContainerId_def)
  from a' b' c' show ?thesis by (intro conjI)
qed

section \<open>Fatal errors\<close>

text \<open>
  Claim C7. Whatever the environment answers, in either mode: if the migration aborts,
  the call that failed is the last entry of the history (nothing was done after it), every
  call before it had succeeded, and the abort carries the error that call returned; the
  monitor is not started. If the migration reaches the monitor, no call has failed.
  In particular, when every remote command succeeds and the transfer fails with \<open>x'\<close>, a
  pre-dump migration ends at the generation-0 transfer with \<open>x'\<close>: the clock is never read,
  nothing of generation 1 is issued and no restore is started.
\<close>

theorem first_error_aborts:
  "(case Action e srcPath dstPath preDump sched of
      Aborted w msg x \<Rightarrow>
        (\<exists>es c. trace w = es @ [c] \<and> list_all succeeded es \<and> error_of c = Some x)
    | Monitored w m \<Rightarrow> list_all succeeded (trace w))
   \<and> ((\<forall>h ho argv. run_result e h ho argv = None) \<and> (\<forall>h a b. scp_result e h a b = Some x') \<longrightarrow>
        Action e srcPath dstPath True sched =
          Aborted
            \<lparr>trace =
               [Logged ''Preparing everything to do a checkpoint'',
                Ran Src [''mkdir'', ''-p'', srcPath @ ''/images/0''] None,
                Logged ''Performing the checkpoint predump = true'',
                Ran Src [''sudo'', ''runc'', ''--id'', getContainerId srcPath, ''checkpoint'',
                         ''--image-path'', srcPath @ ''/images/0'', ''--pre-dump''] None,
                Ran Src [''sudo'', ''tar'', ''-czf'', srcPath @ ''/predump.tar.gz'', ''-C'',
                         srcPath @ ''/images/0/'', ''.''] None,
                Ran Dst [''mkdir'', ''-p'', dstPath @ ''/images/0''] None,
                Logged ''Copying predump image to dst'',
                Copied (URL e Src (srcPath @ ''/predump.tar.gz''))
                       (URL e Dst (dstPath @ ''/images/0'')) (Some x')],
             migrateStart = 0, restoreCmd = None\<rparr>
            ''Error copying predump image files to dst'' x')"
proof -
  have general: "(case Action e srcPath dstPath preDump sched of
      Aborted w msg x \<Rightarrow>
        (\<exists>es c. trace w = es @ [c] \<and> list_all succeeded es \<and> error_of c = Some x)
    | Monitored w m \<Rightarrow> list_all succeeded (trace w))"
  proof (cases rule: pipeline_cases[of e srcPath dstPath preDump])
    case (launched w)
    then show ?thesis
      by (simp add: Action_def ideal_succeeded start_world_def world0_def succeeded_def)
  next
    case (aborted w m x k)
    let ?sc = "(if preDump then predump_script else single_script) e srcPath dstPath
                 (getContainerId srcPath)"
    let ?I = "ideal e (trace start_world) ?sc"
    have "list_all succeeded (trace start_world @ take k ?I)"
      by (simp add: list_all_take ideal_succeeded start_world_def world0_def succeeded_def)
    moreover have "error_of (with_error x (?I ! k)) = Some x"
      using ideal_failing[OF aborted(2,4)] .
    ultimately have "\<exists>es c. trace w = es @ [c] \<and> list_all succeeded es \<and> error_of c = Some x"
      using aborted(3) by (intro exI[of _ "trace start_world @ take k ?I"]
                                 exI[of _ "with_error x (?I ! k)"]) simp
    with aborted(1) show ?thesis by (simp add: Action_def)
  qed
  have scenario: "(\<forall>h ho argv. run_result e h ho argv = None) \<and> (\<forall>h a b. scp_result e h a b = Some x')
    \<longrightarrow> Action e srcPath dstPath True sched =
          Aborted
            \<lparr>trace =
               [Logged ''Preparing everything to do a checkpoint'',
                Ran Src [''mkdir'', ''-p'', srcPath @ ''/images/0''] None,
                Logged ''Performing the checkpoint predump = true'',
                Ran Src [''sudo'', ''runc'', ''--id'', getContainerId srcPath, ''checkpoint'',
                         ''--image-path'', srcPath @ ''/images/0'', ''--pre-dump''] None,
                Ran Src [''sudo'', ''tar'', ''-czf'', srcPath @ ''/predump.tar.gz'', ''-C'',
                         srcPath @ ''/images/0/'', ''.''] None,
                Ran Dst [''mkdir'', ''-p'', dstPath @ ''/images/0''] None,
                Logged ''Copying predump image to dst'',
                Copied (URL e Src (srcPath @ ''/predump.tar.gz''))
                       (URL e Dst (dstPath @ ''/images/0'')) (Some x')],
             migrateStart = 0, restoreCmd = None\<rparr>
            ''Error copying predump image files to dst'' x'"
    by (simp add: Action_def pipeline_script predump_script_def start_world_def world0_def
          orFatal_def Run_def Scp_def logPrintln_def Let_def)
  from general scenario show ?thesis by (rule conjI)
qed

theorem first_error_aborts_witness:
  "Action env_scp_fails ''/run/c2'' ''/var/c2'' True [] =
     Aborted
       \<lparr>trace =
          [Logged ''Preparing everything to do a checkpoint'',
           Ran Src [''mkdir'', ''-p'', ''/run/c2/images/0''] None,
           Logged ''Performing the checkpoint predump = true'',
           Ran Src [''sudo'', ''runc'', ''--id'', ''c2'', ''checkpoint'',
                    ''--image-path'', ''/run/c2/images/0'', ''--pre-dump''] None,
           Ran Src [''sudo'', ''tar'', ''-czf'', ''/run/c2/predump.tar.gz'', ''-C'',
                    ''/run/c2/images/0/'', ''.''] None,
           Ran Dst [''mkdir'', ''-p'', ''/var/c2/images/0''] None,
           Logged ''Copying predump image to dst'',
           Copied ''src:/run/c2/predump.tar.gz'' ''dst:/var/c2/images/0'' (Some ''lost connection'')],
        migrateStart = 0, restoreCmd = None\<rparr>
       ''Error copying predump image files to dst'' ''lost connection''"
  using first_error_aborts[where e=env_scp_fails and srcPath="''/run/c2''" and dstPath="''/var/c2''"
                 and x'="''lost connection''" and sched="[]"]
  by (simp add: env_scp_fails_def env_ok_def getContainerId_def)

section \<open>Executions of the monitor\<close>

lemma run_snoc:
  "run cid t0 (as @ [a]) s0 = (case run cid t0 as s0 of None \<Rightarrow> None | Some s \<Rightarrow> step cid t0 a s)"
  by (induction as arbitrary: s0) (auto split: option.splits)

lemma run_invariant:
  assumes init: "I [] s0"
    and pres: "\<And>as a s s'. I as s \<Longrightarrow> step cid t0 a s = Some s' \<Longrightarrow> I (as @ [a]) s'"
    and run: "run cid t0 sched s0 = Some s"
  shows "I sched s"
  using run
proof (induction sched arbitrary: s rule: rev_induct)
  case Nil
  with init show ?case by simp
next
  case (snoc a as)
  from snoc.prems obtain s1 where s1: "run cid t0 as s0 = Some s1" "step cid t0 a s1 = Some s"
    by (auto simp: run_snoc split: option.splits)
  from pres[OF snoc.IH[OF s1(1)] s1(2)] show ?case .
qed




lemma step_cases [consumes 1, case_names wait_returns wait_done check_hit check_miss loop_hit
    loop_miss tick set_flag fast_done new_ticker loop_set_flag stop_ticker loop_done wake report]:
  assumes "step cid t0 a s = Some s'"
  obtains r where "a = WaitReturns r" "waiter s = W_waiting" "\<not> panicked s"
        "s' = s\<lparr>restoreError := r, waiter := W_returned\<rparr>"
  | "a = WaitStep" "waiter s = W_returned" "\<not> panicked s"
        "s' = wg_Done (s\<lparr>waiter := W_finished\<rparr>)"
  | f where "a = PollRun f" "poller s = P_check" "isRunning cid f" "\<not> panicked s"
        "s' = s\<lparr>poller := P_set\<rparr>"
  | f where "a = PollRun f" "poller s = P_check" "\<not> isRunning cid f" "\<not> panicked s"
        "s' = s\<lparr>poller := P_new_ticker\<rparr>"
  | f where "a = PollRun f" "poller s = P_loop_check" "isRunning cid f" "\<not> panicked s"
        "s' = s\<lparr>poller := P_loop_set\<rparr>"
  | f where "a = PollRun f" "poller s = P_loop_check" "\<not> isRunning cid f" "\<not> panicked s"
        "s' = s\<lparr>poller := P_recv\<rparr>"
  | "a = Tick" "poller s = P_recv" "ticker s = Ticking" "\<not> panicked s"
        "s' = s\<lparr>poller := P_loop_check\<rparr>"
  | "a = PollStep" "poller s = P_set" "\<not> panicked s"
        "s' = s\<lparr>restoreSucceed := True, poller := P_done\<rparr>"
  | "a = PollStep" "poller s = P_done" "\<not> panicked s"
        "s' = wg_Done (s\<lparr>poller := P_finished\<rparr>)"
  | "a = PollStep" "poller s = P_new_ticker" "\<not> panicked s"
        "s' = s\<lparr>ticker := Ticking, poller := P_recv\<rparr>"
  | "a = PollStep" "poller s = P_loop_set" "\<not> panicked s"
        "s' = s\<lparr>restoreSucceed := True, poller := P_stop\<rparr>"
  | "a = PollStep" "poller s = P_stop" "\<not> panicked s"
        "s' = s\<lparr>ticker := Stopped, poller := P_loop_done\<rparr>"
  | "a = PollStep" "poller s = P_loop_done" "\<not> panicked s"
        "s' = wg_Done (s\<lparr>poller := P_finished\<rparr>)"
  | "a = MainWake" "mainpc s = M_waiting" "wg s = 0" "\<not> panicked s"
        "s' = s\<lparr>mainpc := M_woken\<rparr>"
  | now where "a = MainReport now" "mainpc s = M_woken" "\<not> panicked s"
        "s' = s\<lparr>mainpc := M_reported (if restoreSucceed s then Succeeded (now - t0)
                                          else Failed (restoreError s))\<rparr>"
proof (cases a)
  case (WaitReturns r)
  with assms that(1) show thesis by (simp add: step_def split: if_splits)
next
  case WaitStep
  with assms that(2) show thesis by (simp add: step_def split: if_splits)
next
  case (PollRun f)
  with assms that(3,4,5,6) show thesis by (simp add: step_def split: if_splits)
next
  case Tick
  with assms that(7) show thesis by (simp add: step_def split: if_splits)
next
  case PollStep
  with assms that(8,9,10,11,12,13) show thesis
    by (cases "poller s") (simp_all add: step_def split: if_splits)
next
  case MainWake
  with assms that(14) show thesis by (simp add: step_def split: if_splits)
next
  case (MainReport now)
  with assms that(15) show thesis by (simp add: step_def split: if_splits)
qed

lemma nohit_inv_step:
  assumes "step cid t0 a s = Some s'" and "nohit_inv cid as s"
  shows "nohit_inv cid (as @ [a]) s'"
  using assms
  by (cases rule: step_cases) (auto simp: nohit_inv_def wg_Done_def split: if_splits)


lemma hit_inv_step:
  assumes "step cid t0 a s = Some s'" and "hit_inv cid as s"
  shows "hit_inv cid (as @ [a]) s'"
  using assms
  by (cases rule: step_cases) (auto simp: hit_inv_def wg_Done_def split: if_splits)


lemma nohit_inv_run:
  assumes "run cid t0 sched monitor0 = Some s"
  shows "nohit_inv cid sched s"
proof (rule run_invariant[where I="nohit_inv cid", OF _ _ assms])
  show "nohit_inv cid [] monitor0" by (simp add: nohit_inv_def monitor0_def)
next
  fix as a s s'
  assume "nohit_inv cid as s" "step cid t0 a s = Some s'"
  then show "nohit_inv cid (as @ [a]) s'" by (rule nohit_inv_step[rotated])
qed


lemma hit_inv_run:
  assumes "run cid t0 sched monitor0 = Some s"
  shows "hit_inv cid sched s"
proof (rule run_invariant[where I="hit_inv cid", OF _ _ assms])
  show "hit_inv cid [] monitor0" by (simp add: hit_inv_def monitor0_def)
next
  fix as a s s'
  assume "hit_inv cid as s" "step cid t0 a s = Some s'"
  then show "hit_inv cid (as @ [a]) s'" by (rule hit_inv_step[rotated])
qed


lemmas run_eval = step_def monitor0_def wg_Done_def isRunning_def





lemma run_append:
  "run cid t0 (as @ bs) s0 = (case run cid t0 as s0 of None \<Rightarrow> None | Some s \<Rightarrow> run cid t0 bs s)"
  by (induction as arbitrary: s0) (auto split: option.splits)

lemma reported_step:
  assumes "step cid t0 a s = Some s'" and "mainpc s = M_reported oc"
  shows "mainpc s' = M_reported oc"
  using assms by (cases rule: step_cases) (auto simp: wg_Done_def)

lemma reported_run:
  "run cid t0 as s = Some s' \<Longrightarrow> mainpc s = M_reported oc \<Longrightarrow> mainpc s' = M_reported oc"
proof (induction as arbitrary: s)
  case Nil
  then show ?case by simp
next
  case (Cons a as)
  from Cons.prems(1) obtain s1 where s1: "step cid t0 a s = Some s1" "run cid t0 as s1 = Some s'"
    by (auto split: option.splits)
  from Cons.IH[OF s1(2) reported_step[OF s1(1) Cons.prems(2)]] show ?case .
qed

text \<open>An execution that holds a report of main, cut at that report.\<close>

lemma run_report_split:
  assumes "run cid t0 (pre @ MainReport now # post) monitor0 = Some s"
  obtains s1 where "run cid t0 pre monitor0 = Some s1" "mainpc s1 = M_woken" "\<not> panicked s1"
    "mainpc s = M_reported (if restoreSucceed s1 then Succeeded (now - t0)
                            else Failed (restoreError s1))"
proof -
  from assms obtain s1 s2 where a: "run cid t0 pre monitor0 = Some s1"
      "step cid t0 (MainReport now) s1 = Some s2" "run cid t0 post s2 = Some s"
    by (auto simp: run_append split: option.splits)
  from a(2) have b: "mainpc s1 = M_woken" "\<not> panicked s1"
    "mainpc s2 = M_reported (if restoreSucceed s1 then Succeeded (now - t0)
                             else Failed (restoreError s1))"
    by (auto simp: step_def split: if_splits)
  from reported_run[OF a(3) b(3)] a(1) b(1,2) that show thesis by blast
qed

section \<open>The liveness check\<close>

text \<open>
  Claim C2. The claim says that \<^verbatim>\<open>isRunning\<close> returns true exactly when the remote
  \<^verbatim>\<open>stat\<close> of the container's state directory succeeds. The code returns true exactly
  when that command returns an error: with a destination on which every command succeeds the
  check reports not running, and with one on which this \<^verbatim>\<open>stat\<close> (and nothing else) fails
  it reports running.
\<close>

theorem isRunning_true_when_stat_fails:
  "isRunning ''c1'' (\<lambda>argv. None) = False
   \<and> isRunning ''c1'' (\<lambda>argv. if argv = [''stat'', ''/var/run/opencontainer/containers/c1'']
                                then Some ''exit status 1'' else None) = True"
  by (simp add: isRunning_def)

section \<open>The outcome of the monitor\<close>

text \<open>
  Claim C1. The claim says that the completion of the task that did not resolve the monitor
  is a no-op. In the code both tasks call \<^verbatim>\<open>wg.Done()\<close> on a counter that was set to 1.
  First execution: the restore process exits with an error and the process-wait task signals;
  then the first liveness check reports running, the liveness task sets
  \<^verbatim>\<open>restoreSucceed\<close> and signals too: the counter becomes \<open>-1\<close> and the program panics
  before main has reported anything. Second execution: main has been woken by the
  process-wait task's signal, the liveness task sets \<^verbatim>\<open>restoreSucceed\<close> before main reads
  it, and main reports success although the process-wait task resolved first, with an error.
\<close>

theorem second_signal_panics_or_overwrites:
  "run ''c1'' 2 [WaitReturns (Some ''exit status 1''), WaitStep,
                 PollRun (\<lambda>argv. Some ''No such file or directory''), PollStep, PollStep] monitor0
     = Some \<lparr>wg = - 1, restoreSucceed = True, restoreError = Some ''exit status 1'',
             waiter = W_finished, poller = P_finished, mainpc = M_waiting,
             ticker = No_ticker, panicked = True\<rparr>
   \<and> run ''c1'' 2 [WaitReturns (Some ''exit status 1''), WaitStep, MainWake,
                   PollRun (\<lambda>argv. Some ''No such file or directory''), PollStep,
                   MainReport 9] monitor0
     = Some \<lparr>wg = 0, restoreSucceed = True, restoreError = Some ''exit status 1'',
             waiter = W_finished, poller = P_done, mainpc = M_reported (Succeeded 7),
             ticker = No_ticker, panicked = False\<rparr>"
  by (simp add: run_eval)


text \<open>
  Claim C8, as amended. Take an execution that holds a report of main, and suppose that
  before this report \<^verbatim>\<open>restoreCmd.Wait()\<close> has returned the error \<open>x\<close> and no liveness
  check has reported the container running. Then the outcome reported is the failure with
  cause \<open>x\<close>, whatever is executed after the report. And the report is reached: in any
  execution without such a liveness check in which \<^verbatim>\<open>Wait()\<close> has returned \<open>x\<close>,
  \<^verbatim>\<open>restoreSucceed\<close> is false, \<^verbatim>\<open>restoreError\<close> is \<open>x\<close>, nothing has panicked, and
  right after the return of \<^verbatim>\<open>Wait()\<close> the signal of the process-wait task, the wake-up
  of main and its report can be executed and give the failure with cause \<open>x\<close>.
\<close>

theorem restore_error_reported_when_liveness_unobserved:
  "(run cid t0 (pre @ MainReport now # post) monitor0 = Some s
      \<and> list_all (\<lambda>a. \<not> is_hit cid a) pre \<and> WaitReturns (Some x) \<in> set pre \<longrightarrow>
        mainpc s = M_reported (Failed (Some x)))
   \<and> (run cid t0 sched monitor0 = Some s' \<and> list_all (\<lambda>a. \<not> is_hit cid a) sched
      \<and> WaitReturns (Some x) \<in> set sched \<longrightarrow>
        \<not> restoreSucceed s' \<and> \<not> panicked s' \<and> restoreError s' = Some x
      \<and> (\<forall>oc. mainpc s' = M_reported oc \<longrightarrow> oc = Failed (Some x))
      \<and> (waiter s' = W_returned \<longrightarrow>
            run cid t0 [WaitStep, MainWake, MainReport now] s'
              = Some (s'\<lparr>wg := 0, waiter := W_finished,
                         mainpc := M_reported (Failed (Some x))\<rparr>))
      \<and> (waiter s' = W_finished \<and> mainpc s' = M_waiting \<longrightarrow>
            run cid t0 [MainWake, MainReport now] s'
              = Some (s'\<lparr>mainpc := M_reported (Failed (Some x))\<rparr>))
      \<and> (mainpc s' = M_woken \<longrightarrow>
            step cid t0 (MainReport now) s'
              = Some (s'\<lparr>mainpc := M_reported (Failed (Some x))\<rparr>)))"
proof (intro conjI impI)
  assume a: "run cid t0 (pre @ MainReport now # post) monitor0 = Some s
      \<and> list_all (\<lambda>a. \<not> is_hit cid a) pre \<and> WaitReturns (Some x) \<in> set pre"
  then obtain s1 where s1: "run cid t0 pre monitor0 = Some s1"
      "mainpc s = M_reported (if restoreSucceed s1 then Succeeded (now - t0)
                              else Failed (restoreError s1))"
    by (auto elim: run_report_split)
  from nohit_inv_run[OF s1(1)] a have "\<not> restoreSucceed s1" "restoreError s1 = Some x"
    by (auto simp: nohit_inv_def)
  with s1(2) show "mainpc s = M_reported (Failed (Some x))" by simp
next
  assume a: "run cid t0 sched monitor0 = Some s' \<and> list_all (\<lambda>a. \<not> is_hit cid a) sched
      \<and> WaitReturns (Some x) \<in> set sched"
  with nohit_inv_run[of cid t0 sched s']
  have inv: "\<not> restoreSucceed s'" "\<not> panicked s'" "restoreError s' = Some x"
    "wg s' = (if waiter s' = W_finished then 0 else 1)"
    "mainpc s' \<noteq> M_waiting \<longrightarrow> waiter s' = W_finished"
    "\<forall>oc. mainpc s' = M_reported oc \<longrightarrow> oc = Failed (Some x)"
    by (auto simp: nohit_inv_def)
  from inv show "\<not> restoreSucceed s'" "\<not> panicked s'" "restoreError s' = Some x"
    "\<forall>oc. mainpc s' = M_reported oc \<longrightarrow> oc = Failed (Some x)" by blast+
  {
    assume "waiter s' = W_returned"
    with inv show "run cid t0 [WaitStep, MainWake, MainReport now] s'
              = Some (s'\<lparr>wg := 0, waiter := W_finished,
                         mainpc := M_reported (Failed (Some x))\<rparr>)"
      by (auto simp: step_def wg_Done_def)
  }
  {
    assume "waiter s' = W_finished \<and> mainpc s' = M_waiting"
    with inv show "run cid t0 [MainWake, MainReport now] s'
              = Some (s'\<lparr>mainpc := M_reported (Failed (Some x))\<rparr>)"
      by (auto simp: step_def)
  }
  {
    assume "mainpc s' = M_woken"
    with inv show "step cid t0 (MainReport now) s'
              = Some (s'\<lparr>mainpc := M_reported (Failed (Some x))\<rparr>)"
      by (auto simp: step_def)
  }
qed


text \<open>
  Claim C8 as stated fails: \<^verbatim>\<open>Wait()\<close> returns an error before any liveness check has
  observed the container running; then the first check reports running, and the liveness
  task sets \<^verbatim>\<open>restoreSucceed\<close> and signals before the process-wait task has signalled.
  Main is woken by that signal and reports success.
\<close>

theorem liveness_signal_after_error_exit_gives_success:
  "run ''c1'' 2 [WaitReturns (Some ''exit status 1''),
                 PollRun (\<lambda>argv. Some ''No such file or directory''), PollStep, PollStep,
                 MainWake, MainReport 9] monitor0
     = Some \<lparr>wg = 0, restoreSucceed = True, restoreError = Some ''exit status 1'',
             waiter = W_returned, poller = P_finished, mainpc = M_reported (Succeeded 7),
             ticker = No_ticker, panicked = False\<rparr>"
  by (simp add: run_eval)


theorem restore_error_reported_when_liveness_unobserved_witness:
  "run ''c1'' 2 ([PollRun (\<lambda>argv. None), WaitReturns (Some ''exit status 1''), PollStep,
                  WaitStep, MainWake] @ MainReport 9
                  # [Tick, PollRun (\<lambda>argv. Some ''No such file or directory'')]) monitor0
     = Some \<lparr>wg = 0, restoreSucceed = False, restoreError = Some ''exit status 1'',
             waiter = W_finished, poller = P_loop_set,
             mainpc = M_reported (Failed (Some ''exit status 1'')),
             ticker = Ticking, panicked = False\<rparr>
   \<and> run ''c1'' 2 [WaitReturns (Some ''exit status 1'')] monitor0
     = Some \<lparr>wg = 1, restoreSucceed = False, restoreError = Some ''exit status 1'',
             waiter = W_returned, poller = P_check, mainpc = M_waiting,
             ticker = No_ticker, panicked = False\<rparr>
   \<and> run ''c1'' 2 [WaitStep, MainWake, MainReport 9]
         \<lparr>wg = 1, restoreSucceed = False, restoreError = Some ''exit status 1'',
          waiter = W_returned, poller = P_check, mainpc = M_waiting,
          ticker = No_ticker, panicked = False\<rparr>
     = Some \<lparr>wg = 0, restoreSucceed = False, restoreError = Some ''exit status 1'',
             waiter = W_finished, poller = P_check,
             mainpc = M_reported (Failed (Some ''exit status 1'')),
             ticker = No_ticker, panicked = False\<rparr>"
proof -
  let ?pre = "[PollRun (\<lambda>argv. None), WaitReturns (Some ''exit status 1''), PollStep,
               WaitStep, MainWake]"
  let ?post = "[Tick, PollRun (\<lambda>argv. Some ''No such file or directory'')]"
  let ?s = "\<lparr>wg = 0, restoreSucceed = False, restoreError = Some ''exit status 1'',
             waiter = W_finished, poller = P_loop_set,
             mainpc = M_reported (Failed (Some ''exit status 1'')),
             ticker = Ticking, panicked = False\<rparr>"
  let ?sched = "[WaitReturns (Some ''exit status 1'')]"
  let ?s' = "\<lparr>wg = 1, restoreSucceed = False, restoreError = Some ''exit status 1'',
             waiter = W_returned, poller = P_check, mainpc = M_waiting,
             ticker = No_ticker, panicked = False\<rparr>"
  note t = restore_error_reported_when_liveness_unobserved[where cid="''c1''" and ?t0.0=2 and pre="?pre" and now=9 and post="?post"
                and s="?s" and x="''exit status 1''" and sched="?sched" and s'="?s'"]
  have r: "run ''c1'' 2 (?pre @ MainReport 9 # ?post) monitor0 = Some ?s"
    by (simp add: run_eval)
  have h: "list_all (\<lambda>a. \<not> is_hit ''c1'' a) ?pre" by (simp add: isRunning_def)
  have m: "WaitReturns (Some ''exit status 1'') \<in> set ?pre" by simp
  from conjunct1[OF t] r h m
  have a: "mainpc ?s = M_reported (Failed (Some ''exit status 1''))" by blast
  have r2: "run ''c1'' 2 ?sched monitor0 = Some ?s'" by (simp add: run_eval)
  have h2: "list_all (\<lambda>a. \<not> is_hit ''c1'' a) ?sched" by simp
  have m2: "WaitReturns (Some ''exit status 1'') \<in> set ?sched" by simp
  from conjunct2[OF t] r2 h2 m2
  have "waiter ?s' = W_returned \<longrightarrow>
            run ''c1'' 2 [WaitStep, MainWake, MainReport 9] ?s'
              = Some (?s'\<lparr>wg := 0, waiter := W_finished,
                         mainpc := M_reported (Failed (Some ''exit status 1''))\<rparr>)"
    by blast
  then have b: "run ''c1'' 2 [WaitStep, MainWake, MainReport 9] ?s'
              = Some (?s'\<lparr>wg := 0, waiter := W_finished,
                         mainpc := M_reported (Failed (Some ''exit status 1''))\<rparr>)" by simp
  from r a r2 b show ?thesis by simp
qed


text \<open>
  Claim C10, as amended. The same with a \<^verbatim>\<open>nil\<close> return: when \<^verbatim>\<open>Wait()\<close> has returned
  \<^verbatim>\<open>nil\<close> and no liveness check has reported the container running before main reports,
  the outcome reported is the failure with a nil cause, and this report is reached. And in
  every execution, \<^verbatim>\<open>restoreSucceed\<close> is true, or a success has been reported, only if some
  liveness check reported the container running: the return of \<^verbatim>\<open>Wait()\<close> alone never
  makes a success.
\<close>

theorem clean_exit_failure_when_liveness_unobserved:
  "(run cid t0 (pre @ MainReport now # post) monitor0 = Some s
      \<and> list_all (\<lambda>a. \<not> is_hit cid a) pre \<and> WaitReturns None \<in> set pre \<longrightarrow>
        mainpc s = M_reported (Failed None))
   \<and> (run cid t0 sched monitor0 = Some s' \<and> list_all (\<lambda>a. \<not> is_hit cid a) sched
      \<and> WaitReturns None \<in> set sched \<longrightarrow>
        \<not> restoreSucceed s' \<and> \<not> panicked s' \<and> restoreError s' = None
      \<and> (\<forall>oc. mainpc s' = M_reported oc \<longrightarrow> oc = Failed None)
      \<and> (waiter s' = W_returned \<longrightarrow>
            run cid t0 [WaitStep, MainWake, MainReport now] s'
              = Some (s'\<lparr>wg := 0, waiter := W_finished, mainpc := M_reported (Failed None)\<rparr>))
      \<and> (waiter s' = W_finished \<and> mainpc s' = M_waiting \<longrightarrow>
            run cid t0 [MainWake, MainReport now] s'
              = Some (s'\<lparr>mainpc := M_reported (Failed None)\<rparr>))
      \<and> (mainpc s' = M_woken \<longrightarrow>
            step cid t0 (MainReport now) s' = Some (s'\<lparr>mainpc := M_reported (Failed None)\<rparr>)))
   \<and> (run cid t0 sched' monitor0 = Some s'' \<longrightarrow>
        (restoreSucceed s'' \<longrightarrow> list_ex (is_hit cid) sched')
      \<and> (\<forall>d. mainpc s'' = M_reported (Succeeded d) \<longrightarrow> list_ex (is_hit cid) sched'))"
proof (intro conjI impI)
  assume a: "run cid t0 (pre @ MainReport now # post) monitor0 = Some s
      \<and> list_all (\<lambda>a. \<not> is_hit cid a) pre \<and> WaitReturns None \<in> set pre"
  then obtain s1 where s1: "run cid t0 pre monitor0 = Some s1"
      "mainpc s = M_reported (if restoreSucceed s1 then Succeeded (now - t0)
                              else Failed (restoreError s1))"
    by (auto elim: run_report_split)
  from nohit_inv_run[OF s1(1)] a have "\<not> restoreSucceed s1" "restoreError s1 = None"
    by (auto simp: nohit_inv_def)
  with s1(2) show "mainpc s = M_reported (Failed None)" by simp
next
  assume a: "run cid t0 sched monitor0 = Some s' \<and> list_all (\<lambda>a. \<not> is_hit cid a) sched
      \<and> WaitReturns None \<in> set sched"
  with nohit_inv_run[of cid t0 sched s']
  have inv: "\<not> restoreSucceed s'" "\<not> panicked s'" "restoreError s' = None"
    "wg s' = (if waiter s' = W_finished then 0 else 1)"
    "mainpc s' \<noteq> M_waiting \<longrightarrow> waiter s' = W_finished"
    "\<forall>oc. mainpc s' = M_reported oc \<longrightarrow> oc = Failed None"
    by (auto simp: nohit_inv_def)
  from inv show "\<not> restoreSucceed s'" "\<not> panicked s'" "restoreError s' = None"
    "\<forall>oc. mainpc s' = M_reported oc \<longrightarrow> oc = Failed None" by blast+
  {
    assume "waiter s' = W_returned"
    with inv show "run cid t0 [WaitStep, MainWake, MainReport now] s'
              = Some (s'\<lparr>wg := 0, waiter := W_finished, mainpc := M_reported (Failed None)\<rparr>)"
      by (auto simp: step_def wg_Done_def)
  }
  {
    assume "waiter s' = W_finished \<and> mainpc s' = M_waiting"
    with inv show "run cid t0 [MainWake, MainReport now] s'
              = Some (s'\<lparr>mainpc := M_reported (Failed None)\<rparr>)"
      by (auto simp: step_def)
  }
  {
    assume "mainpc s' = M_woken"
    with inv show "step cid t0 (MainReport now) s'
              = Some (s'\<lparr>mainpc := M_reported (Failed None)\<rparr>)"
      by (auto simp: step_def)
  }
next
  assume a: "run cid t0 sched' monitor0 = Some s''"
  from hit_inv_run[OF a]
  show "restoreSucceed s'' \<Longrightarrow> list_ex (is_hit cid) sched'"
    "\<forall>d. mainpc s'' = M_reported (Succeeded d) \<longrightarrow> list_ex (is_hit cid) sched'"
    by (auto simp: hit_inv_def)
qed


text \<open>
  Claim C10 as stated fails: \<^verbatim>\<open>Wait()\<close> returns \<^verbatim>\<open>nil\<close> before any liveness check has
  reported the container running; then the first check reports running and the liveness
  task signals first. Main reports success.
\<close>

theorem liveness_signal_after_clean_exit_gives_success:
  "run ''c1'' 2 [WaitReturns None,
                 PollRun (\<lambda>argv. Some ''No such file or directory''), PollStep, PollStep,
                 MainWake, MainReport 9] monitor0
     = Some \<lparr>wg = 0, restoreSucceed = True, restoreError = None,
             waiter = W_returned, poller = P_finished, mainpc = M_reported (Succeeded 7),
             ticker = No_ticker, panicked = False\<rparr>"
  by (simp add: run_eval)


theorem clean_exit_failure_when_liveness_unobserved_witness:
  "run ''c1'' 2 ([WaitReturns None, WaitStep, MainWake] @ MainReport 9
                  # [PollRun (\<lambda>argv. Some ''No such file or directory'')]) monitor0
     = Some \<lparr>wg = 0, restoreSucceed = False, restoreError = None, waiter = W_finished,
             poller = P_set, mainpc = M_reported (Failed None), ticker = No_ticker,
             panicked = False\<rparr>
   \<and> run ''c1'' 2 [WaitReturns None] monitor0
     = Some \<lparr>wg = 1, restoreSucceed = False, restoreError = None, waiter = W_returned,
             poller = P_check, mainpc = M_waiting, ticker = No_ticker, panicked = False\<rparr>
   \<and> run ''c1'' 2 [WaitStep, MainWake, MainReport 9]
         \<lparr>wg = 1, restoreSucceed = False, restoreError = None, waiter = W_returned,
          poller = P_check, mainpc = M_waiting, ticker = No_ticker, panicked = False\<rparr>
     = Some \<lparr>wg = 0, restoreSucceed = False, restoreError = None, waiter = W_finished,
             poller = P_check, mainpc = M_reported (Failed None), ticker = No_ticker,
             panicked = False\<rparr>
   \<and> run ''c1'' 2 [PollRun (\<lambda>argv. Some ''No such file or directory''), PollStep] monitor0
     = Some \<lparr>wg = 1, restoreSucceed = True, restoreError = None, waiter = W_waiting,
             poller = P_done, mainpc = M_waiting, ticker = No_ticker, panicked = False\<rparr>
   \<and> list_ex (is_hit ''c1'') [PollRun (\<lambda>argv. Some ''No such file or directory''), PollStep]"
proof -
  let ?pre = "[WaitReturns None, WaitStep, MainWake]"
  let ?post = "[PollRun (\<lambda>argv. Some ''No such file or directory'')]"
  let ?s = "\<lparr>wg = 0, restoreSucceed = False, restoreError = None, waiter = W_finished,
             poller = P_set, mainpc = M_reported (Failed None), ticker = No_ticker,
             panicked = False\<rparr>"
  let ?sched = "[WaitReturns None]"
  let ?s' = "\<lparr>wg = 1, restoreSucceed = False, restoreError = None, waiter = W_returned,
             poller = P_check, mainpc = M_waiting, ticker = No_ticker, panicked = False\<rparr>"
  let ?sched' = "[PollRun (\<lambda>argv. Some ''No such file or directory''), PollStep]"
  let ?s'' = "\<lparr>wg = 1, restoreSucceed = True, restoreError = None, waiter = W_waiting,
             poller = P_done, mainpc = M_waiting, ticker = No_ticker, panicked = False\<rparr>"
  note t = clean_exit_failure_when_liveness_unobserved[where cid="''c1''" and ?t0.0=2 and pre="?pre" and now=9 and post="?post"
                and s="?s" and sched="?sched" and s'="?s'" and sched'="?sched'" and s''="?s''"]
  have r: "run ''c1'' 2 (?pre @ MainReport 9 # ?post) monitor0 = Some ?s"
    by (simp add: run_eval)
  have h: "list_all (\<lambda>a. \<not> is_hit ''c1'' a) ?pre" by simp
  have m: "WaitReturns None \<in> set ?pre" by simp
  from conjunct1[OF t] r h m
  have a: "mainpc ?s = M_reported (Failed None)" by blast
  have r2: "run ''c1'' 2 ?sched monitor0 = Some ?s'" by (simp add: run_eval)
  have h2: "list_all (\<lambda>a. \<not> is_hit ''c1'' a) ?sched" by simp
  have m2: "WaitReturns None \<in> set ?sched" by simp
  from conjunct1[OF conjunct2[OF t]] r2 h2 m2
  have "waiter ?s' = W_returned \<longrightarrow>
            run ''c1'' 2 [WaitStep, MainWake, MainReport 9] ?s'
              = Some (?s'\<lparr>wg := 0, waiter := W_finished, mainpc := M_reported (Failed None)\<rparr>)"
    by blast
  then have b: "run ''c1'' 2 [WaitStep, MainWake, MainReport 9] ?s'
              = Some (?s'\<lparr>wg := 0, waiter := W_finished, mainpc := M_reported (Failed None)\<rparr>)"
    by simp
  have r3: "run ''c1'' 2 ?sched' monitor0 = Some ?s''" by (simp add: run_eval)
  from conjunct2[OF conjunct2[OF t]] r3
  have "restoreSucceed ?s'' \<longrightarrow> list_ex (is_hit ''c1'') ?sched'" by blast
  then have c: "list_ex (is_hit ''c1'') ?sched'" by simp
  from r a r2 b r3 c show ?thesis by simp
qed












end
